theory Spec2Isabelle
  imports Complex_Main
begin

section \<open>ETA\_Utilities: the ETA parameter model and its two parsers\<close>

text \<open>
  A shallow embedding of \<^verbatim>\<open>Code/ETA_Utilities.py\<close> (class \<^verbatim>\<open>ETA_Parameters\<close>).
  Python floats are modelled as real numbers (rounding, infinities and NaN are outside the
  model), Python strings as \<open>string\<close>, Python lists as lists. Every exception the methods
  can raise is a value of type \<open>error\<close>.
\<close>

subsection \<open>Exceptions and log records\<close>

datatype error =
    AssertionError string
  | IndexError
  | ValueError
  | ZeroDivisionError
  | TypeError
  | AttributeError
  | UnboundLocalError

text \<open>
  The records sent to \<^verbatim>\<open>module_logger\<close>. The format arguments are kept apart from the
  fixed message text: \<open>ErrorIO errno strerror\<close> is \<^verbatim>\<open>"I/O error({0}): {1}"\<close>,
  \<open>ErrorFileNotFound filename\<close> is \<^verbatim>\<open>"File not found was: {0}"\<close> and
  \<open>WarningUserInput token\<close> is the warning of the default case of \<^verbatim>\<open>read_constraints\<close>.
\<close>

datatype log_record =
    ErrorIO int string
  | ErrorFileNotFound string
  | WarningUserInput string

subsection \<open>Python built-ins used by the module\<close>

text \<open>\<^verbatim>\<open>str.split(',')\<close>: the pieces between the commas; never the empty list.\<close>

fun split_comma :: "string \<Rightarrow> string list" where
  "split_comma [] = [[]]"
| "split_comma (c # cs) =
     (if c = CHR '','' then [] # split_comma cs
      else (case split_comma cs of
              [] \<Rightarrow> [[c]]
            | t # ts \<Rightarrow> (c # t) # ts))"

text \<open>\<^verbatim>\<open>str.strip()\<close>: the ASCII whitespace characters are removed at both ends.\<close>

definition is_space :: "char \<Rightarrow> bool" where
  "is_space c \<longleftrightarrow> c \<in> set [CHR '' '', CHR 0x09, CHR 0x0A, CHR 0x0B, CHR 0x0C, CHR 0x0D]"

definition strip :: "string \<Rightarrow> string" where
  "strip s = rev (dropWhile is_space (rev (dropWhile is_space s)))"

text \<open>\<^verbatim>\<open>str.lower()\<close> on ASCII text.\<close>

definition lower_char :: "char \<Rightarrow> char" where
  "lower_char c =
     (case map_of (zip ''ABCDEFGHIJKLMNOPQRSTUVWXYZ'' ''abcdefghijklmnopqrstuvwxyz'') c of
        None \<Rightarrow> c
      | Some d \<Rightarrow> d)"

definition lower :: "string \<Rightarrow> string" where
  "lower s = map lower_char s"

text \<open>
  \<^verbatim>\<open>float(s)\<close> and \<^verbatim>\<open>int(s)\<close> on decimal literals: an optional sign, digits, an optional
  fraction and an optional exponent. \<open>None\<close> is Python's \<^verbatim>\<open>ValueError\<close>. The spellings
  \<^verbatim>\<open>inf\<close> and \<^verbatim>\<open>nan\<close> have no real value and are outside the model.
\<close>

definition digit_of :: "char \<Rightarrow> nat option" where
  "digit_of c = map_of (zip ''0123456789'' [0, 1, 2, 3, 4, 5, 6, 7, 8, 9]) c"

fun digits_val :: "nat \<Rightarrow> string \<Rightarrow> nat option" where
  "digits_val acc [] = Some acc"
| "digits_val acc (c # cs) =
     (case digit_of c of
        None \<Rightarrow> None
      | Some d \<Rightarrow> digits_val (10 * acc + d) cs)"

definition py_nat :: "string \<Rightarrow> nat option" where
  "py_nat s = (if s = [] then None else digits_val 0 s)"

definition split_sign :: "string \<Rightarrow> bool \<times> string" where
  "split_sign s =
     (case s of
        [] \<Rightarrow> (False, [])
      | c # cs \<Rightarrow>
          if c = CHR ''-'' then (True, cs)
          else if c = CHR ''+'' then (False, cs)
          else (False, s))"

definition py_int :: "string \<Rightarrow> int option" where
  "py_int s =
     (case split_sign s of
        (neg, ds) \<Rightarrow>
          (case py_nat ds of
             None \<Rightarrow> None
           | Some n \<Rightarrow> Some (if neg then - int n else int n)))"

definition is_exp_char :: "char \<Rightarrow> bool" where
  "is_exp_char c \<longleftrightarrow> c = CHR ''e'' \<or> c = CHR ''E''"

definition mantissa :: "string \<Rightarrow> real option" where
  "mantissa s =
     (let ip = takeWhile (\<lambda>c. c \<noteq> CHR ''.'') s;
          rest = dropWhile (\<lambda>c. c \<noteq> CHR ''.'') s
      in case rest of
           [] \<Rightarrow> map_option real (py_nat ip)
         | _ # fp \<Rightarrow>
             if ip = [] \<and> fp = [] then None
             else (case (digits_val 0 ip, digits_val 0 fp) of
                     (Some i, Some f) \<Rightarrow> Some (real i + real f / 10 ^ length fp)
                   | _ \<Rightarrow> None))"

definition py_float :: "string \<Rightarrow> real option" where
  "py_float s =
     (case split_sign s of
        (neg, body) \<Rightarrow>
          (let ms = takeWhile (\<lambda>c. \<not> is_exp_char c) body;
               es = dropWhile (\<lambda>c. \<not> is_exp_char c) body
           in case mantissa ms of
                None \<Rightarrow> None
              | Some m \<Rightarrow>
                  (case es of
                     [] \<Rightarrow> Some (if neg then - m else m)
                   | _ # ex \<Rightarrow>
                       (case py_int ex of
                          None \<Rightarrow> None
                        | Some e \<Rightarrow>
                            Some ((if neg then - m else m) *
                                  (if 0 \<le> e then 10 ^ nat e else 1 / 10 ^ nat (- e)))))))"

text \<open>
  Values that meet in the index lookup of the constructor: strings, the pairs produced by
  \<^verbatim>\<open>enumerate\<close>, and integers. \<open>py_eq\<close> is Python's \<^verbatim>\<open>==\<close> on them: values of different
  types are never equal.
\<close>

datatype pyval = PyStr string | PyTuple nat string | PyInt int

fun py_eq :: "pyval \<Rightarrow> pyval \<Rightarrow> bool" where
  "py_eq (PyStr a) (PyStr b) = (a = b)"
| "py_eq (PyTuple i a) (PyTuple j b) = (i = j \<and> a = b)"
| "py_eq (PyInt a) (PyInt b) = (a = b)"
| "py_eq _ _ = False"

definition enumerate_py :: "string list \<Rightarrow> pyval list" where
  "enumerate_py xs = map (\<lambda>(i, x). PyTuple i x) (zip [0..<length xs] xs)"

text \<open>\<^verbatim>\<open>next(iterator, default)\<close>: the first item, or the default when there is none.\<close>

definition next_py :: "'a list \<Rightarrow> 'a \<Rightarrow> 'a" where
  "next_py xs d = (case xs of [] \<Rightarrow> d | x # _ \<Rightarrow> x)"

text \<open>\<^verbatim>\<open>xs[i]\<close>: negative indices count from the end, a tuple or string index is a TypeError.\<close>

definition list_index :: "'a list \<Rightarrow> int \<Rightarrow> error + 'a" where
  "list_index xs i =
     (if 0 \<le> i \<and> i < int (length xs) then Inr (xs ! nat i)
      else if i < 0 \<and> - int (length xs) \<le> i then Inr (xs ! nat (int (length xs) + i))
      else Inl IndexError)"

fun getitem :: "'a list \<Rightarrow> pyval \<Rightarrow> error + 'a" where
  "getitem xs (PyInt i) = list_index xs i"
| "getitem xs _ = Inl TypeError"

text \<open>
  Float division: a zero divisor raises. With floats as real numbers, a product never
  underflows to zero and \<^verbatim>\<open>**\<close> never raises OverflowError; where the code meets one of
  these at the ends of the float range, the model goes on. No property below rests on
  that: each of them is stated for calls that return, or is computed on ordinary values.
\<close>

definition py_div :: "real \<Rightarrow> real \<Rightarrow> error + real" where
  "py_div a b = (if b = 0 then Inl ZeroDivisionError else Inr (a / b))"

subsection \<open>The parameter model\<close>

text \<open>The file object kept in \<^verbatim>\<open>self.f\<close>; only its \<^verbatim>\<open>closed\<close> flag is observed.\<close>

datatype file_obj = File (closed: bool)

text \<open>
  The attributes of an \<^verbatim>\<open>ETA_Parameters\<close> object, under the names the class gives them.
  \<open>f_attr\<close> is the attribute \<^verbatim>\<open>self.f\<close>: \<open>None\<close> until a parser has opened a file.
\<close>

record eta =
  spectrum_type :: string
  spectrum :: "(real \<times> real) list"
  max_weight :: real
  src :: real
  tcc_dist :: real
  t_ds :: real
  t_w :: real
  snout_dist :: real
  t_c :: real
  t_m :: real
  r_f :: real
  r_o :: real
  theta :: real
  ds_mat :: string
  struct_mat :: string
  fill_mat :: string
  fissile_mat :: string
  t_nas :: real
  r_nas :: real
  nas_mat :: string
  t_nas_f :: "real list"
  r_nas_f :: real
  nas_mat_f :: "string list"
  toad_loc :: string
  toad_mat :: string
  t_toad :: "real list"
  r_toad :: real
  toad_mat_f :: "string list"
  holder_mat :: string
  h_fill_mat :: string
  t_h :: real
  max_vert :: int
  max_horiz :: int
  min_fiss :: real
  f_attr :: "file_obj option"

text \<open>The keyword arguments of \<^verbatim>\<open>__init__\<close>, each under its parameter name with the prefix \<open>arg_\<close>.\<close>

record eta_args =
  arg_spectrum_type :: string
  arg_spectrum :: "(real \<times> real) list"
  arg_min_fiss :: real
  arg_max_weight :: real
  arg_src :: real
  arg_tcc_dist :: real
  arg_debris_shield_thickness :: real
  arg_wall_thickness :: real
  arg_snout_dist :: real
  arg_cover_thickness :: real
  arg_mount_thickness :: real
  arg_face_radius :: real
  arg_eta_or :: real
  arg_cone_angle :: real
  arg_debris_shield_mat :: string
  arg_struct_mat :: string
  arg_fill_mat :: string
  arg_fissile_mat :: string
  arg_nas_th :: real
  arg_nas_r :: real
  arg_nas_mat :: string
  arg_nas_foil_th :: "real list"
  arg_nas_foil_r :: real
  arg_nas_foil_mat :: "string list"
  arg_toad_loc :: string
  arg_toad_mat :: string
  arg_toad_foil_th :: "real list"
  arg_toad_foil_r :: real
  arg_toad_foil_mat :: "string list"
  arg_holder_mat :: string
  arg_holder_fill_mat :: string
  arg_holder_thickness :: real
  arg_max_vert :: int
  arg_max_horiz :: int

text \<open>The default values of the keyword arguments.\<close>

definition default_args :: eta_args where
  "default_args =
     \<lparr> arg_spectrum_type = ''normalized differential'',
       arg_spectrum = [],
       arg_min_fiss = 5 * 10 ^ 8,
       arg_max_weight = 125,
       arg_src = 5 * 10 ^ 15,
       arg_tcc_dist = 1524 / 100,
       arg_debris_shield_thickness = 3 / 10,
       arg_wall_thickness = 5 / 10,
       arg_snout_dist = 5214 / 100,
       arg_cover_thickness = 1,
       arg_mount_thickness = 24 / 10,
       arg_face_radius = 548 / 100,
       arg_eta_or = 939 / 100,
       arg_cone_angle = 7022 / 100,
       arg_debris_shield_mat = ''Al'',
       arg_struct_mat = ''Al'',
       arg_fill_mat = ''Air (dry near sea level)'',
       arg_fissile_mat = ''Pb'',
       arg_nas_th = 14 / 1000,
       arg_nas_r = 269 / 100,
       arg_nas_mat = ''Al'',
       arg_nas_foil_th = [1 / 10, 1 / 10, 1 / 10, 1 / 10, 1 / 100],
       arg_nas_foil_r = 25 / 10,
       arg_nas_foil_mat = [''Zr'', ''Zn'', ''In'', ''Al'', ''Ta''],
       arg_toad_loc = ''In'',
       arg_toad_mat = ''Al'',
       arg_toad_foil_th = [254 / 10000, 127 / 10000],
       arg_toad_foil_r = 1252 / 1000,
       arg_toad_foil_mat = [''Au'', ''Pb''],
       arg_holder_mat = ''Al'',
       arg_holder_fill_mat = ''Fe'',
       arg_holder_thickness = 2,
       arg_max_vert = 3,
       arg_max_horiz = 7 \<rparr>"

subsection \<open>The constructor\<close>

text \<open>
  \<^verbatim>\<open>ind=next((i for i in enumerate(self.toad_mat_f) if i == self.fissile_mat), -1)\<close>:
  the items of \<^verbatim>\<open>enumerate\<close> are (index, value) pairs and each is compared with the
  string \<^verbatim>\<open>fissile_mat\<close>.
\<close>

definition init_ind :: "string list \<Rightarrow> string \<Rightarrow> pyval" where
  "init_ind mats fm =
     next_py (filter (\<lambda>i. py_eq i (PyStr fm)) (enumerate_py mats)) (PyInt (- 1))"

text \<open>
  The attribute assignments of \<^verbatim>\<open>__init__\<close>, before \<^verbatim>\<open>min_fiss\<close> is computed; until
  then the field \<open>min_fiss\<close> of the record holds the argument, and \<^verbatim>\<open>self.f\<close> does not exist.
\<close>

definition store_args :: "eta_args \<Rightarrow> eta" where
  "store_args a =
     \<lparr> spectrum_type = arg_spectrum_type a,
       spectrum = arg_spectrum a,
       max_weight = arg_max_weight a,
       src = arg_src a,
       tcc_dist = arg_tcc_dist a,
       t_ds = arg_debris_shield_thickness a,
       t_w = arg_wall_thickness a,
       snout_dist = arg_snout_dist a,
       t_c = arg_cover_thickness a,
       t_m = arg_mount_thickness a,
       r_f = arg_face_radius a,
       r_o = arg_eta_or a,
       theta = arg_cone_angle a,
       ds_mat = arg_debris_shield_mat a,
       struct_mat = arg_struct_mat a,
       fill_mat = arg_fill_mat a,
       fissile_mat = arg_fissile_mat a,
       t_nas = arg_nas_th a,
       r_nas = arg_nas_r a,
       nas_mat = arg_nas_mat a,
       t_nas_f = arg_nas_foil_th a,
       r_nas_f = arg_nas_foil_r a,
       nas_mat_f = arg_nas_foil_mat a,
       toad_loc = arg_toad_loc a,
       toad_mat = arg_toad_mat a,
       t_toad = arg_toad_foil_th a,
       r_toad = arg_toad_foil_r a,
       toad_mat_f = arg_toad_foil_mat a,
       holder_mat = arg_holder_mat a,
       h_fill_mat = arg_holder_fill_mat a,
       t_h = arg_holder_thickness a,
       max_vert = arg_max_vert a,
       max_horiz = arg_max_horiz a,
       min_fiss = arg_min_fiss a,
       f_attr = None \<rparr>"

text \<open>
  \<^verbatim>\<open>__init__\<close>: the two assertions come first; then the attributes are stored; then
  \<^verbatim>\<open>self.min_fiss=min_fiss/(self.src*self.r_toad**2*pi*self.t_toad[ind])\<close>, where the
  subscript is evaluated before the division. A raised exception leaves no object.
\<close>

definition init :: "eta_args \<Rightarrow> error + eta" where
  "init a =
     (if length (arg_nas_foil_th a) \<noteq> length (arg_nas_foil_mat a) then
        Inl (AssertionError ''The number of thicknesses and materials for the NAS must be equal.'')
      else if length (arg_toad_foil_th a) \<noteq> length (arg_toad_foil_mat a) then
        Inl (AssertionError ''The number of thicknesses and materials for the TOAD must be equal.'')
      else
        (let self = store_args a;
             ind = init_ind (toad_mat_f self) (fissile_mat self)
         in case getitem (t_toad self) ind of
              Inl e \<Rightarrow> Inl e
            | Inr t \<Rightarrow>
                (case py_div (arg_min_fiss a) (src self * (r_toad self)\<^sup>2 * pi * t) of
                   Inl e \<Rightarrow> Inl e
                 | Inr v \<Rightarrow> Inr (self\<lparr>min_fiss := v\<rparr>))))"

subsection \<open>Outcome of a method call\<close>

text \<open>
  A method mutates the object in place, so a call that raises still leaves its earlier
  assignments behind. An outcome is the object after the call, the records logged during
  the call, and the exception that ended it, if any.
\<close>

datatype outcome = Outcome (state: eta) (logs: "log_record list") (raised: "error option")

text \<open>
  What \<^verbatim>\<open>open(filename, 'r')\<close> gives for each path: the lines of the file as iteration
  yields them (each with its line end), or the \<^verbatim>\<open>errno\<close> and \<^verbatim>\<open>strerror\<close> of the IOError.
\<close>

type_synonym filesystem = "string \<Rightarrow> (int \<times> string) + string list"

subsection \<open>The switch helper\<close>

text \<open>
  Modelled from the spec: \<^verbatim>\<open>Utilities.Switch\<close>, the class behind
  \<^verbatim>\<open>for case in util.Switch(value)\<close>, lives in the module \<^verbatim>\<open>Utilities\<close>, whose source is missing. The spec says
  that matching is "exact after trimming -- no fuzzy or prefix matching" and that a keyword
  outside the table reaches the default case: \<^verbatim>\<open>case(x)\<close> holds when the switched value
  equals \<^verbatim>\<open>x\<close>, and \<^verbatim>\<open>case()\<close> always holds.
\<close>

definition switch_case :: "string \<Rightarrow> string \<Rightarrow> bool" where
  "switch_case v x \<longleftrightarrow> v = x"

subsection \<open>The constraints parser\<close>

text \<open>\<^verbatim>\<open>split_list[i].strip()\<close>, with the IndexError of a missing token.\<close>

definition item :: "string list \<Rightarrow> nat \<Rightarrow> error + string" where
  "item split_list i =
     (case list_index split_list (int i) of
        Inl e \<Rightarrow> Inl e
      | Inr t \<Rightarrow> Inr (strip t))"

definition float_item :: "string list \<Rightarrow> nat \<Rightarrow> error + real" where
  "float_item split_list i =
     (case item split_list i of
        Inl e \<Rightarrow> Inl e
      | Inr t \<Rightarrow> (case py_float t of None \<Rightarrow> Inl ValueError | Some v \<Rightarrow> Inr v))"

definition int_item :: "string list \<Rightarrow> nat \<Rightarrow> error + int" where
  "int_item split_list i =
     (case item split_list i of
        Inl e \<Rightarrow> Inl e
      | Inr t \<Rightarrow> (case py_int t of None \<Rightarrow> Inl ValueError | Some v \<Rightarrow> Inr v))"

text \<open>
  The loop \<^verbatim>\<open>for i in range(1, len(split_list)): xs.append(float(split_list[i].strip()))\<close>
  on the tokens after the keyword: a token that is no float ends it with the values
  appended so far.
\<close>

fun append_floats :: "real list \<Rightarrow> string list \<Rightarrow> real list \<times> error option" where
  "append_floats acc [] = (acc, None)"
| "append_floats acc (t # ts) =
     (case py_float (strip t) of
        None \<Rightarrow> (acc, Some ValueError)
      | Some v \<Rightarrow> append_floats (acc @ [v]) ts)"

text \<open>
  The bodies of the cases. \<open>upd v\<close> is the object with the case's attribute set to \<open>v\<close>.
  A scalar case reads \<^verbatim>\<open>split_list[1]\<close>; a list case starts from the empty list and
  appends every token after the keyword.
\<close>

definition assign_float :: "(real \<Rightarrow> eta) \<Rightarrow> eta \<Rightarrow> string list \<Rightarrow> outcome" where
  "assign_float upd self split_list =
     (case float_item split_list 1 of
        Inl e \<Rightarrow> Outcome self [] (Some e)
      | Inr v \<Rightarrow> Outcome (upd v) [] None)"

definition assign_int :: "(int \<Rightarrow> eta) \<Rightarrow> eta \<Rightarrow> string list \<Rightarrow> outcome" where
  "assign_int upd self split_list =
     (case int_item split_list 1 of
        Inl e \<Rightarrow> Outcome self [] (Some e)
      | Inr v \<Rightarrow> Outcome (upd v) [] None)"

definition assign_str :: "(string \<Rightarrow> eta) \<Rightarrow> eta \<Rightarrow> string list \<Rightarrow> outcome" where
  "assign_str upd self split_list =
     (case item split_list 1 of
        Inl e \<Rightarrow> Outcome self [] (Some e)
      | Inr v \<Rightarrow> Outcome (upd v) [] None)"

definition assign_strs :: "(string list \<Rightarrow> eta) \<Rightarrow> eta \<Rightarrow> string list \<Rightarrow> outcome" where
  "assign_strs upd self split_list = Outcome (upd (map strip (tl split_list))) [] None"

definition assign_floats :: "(real list \<Rightarrow> eta) \<Rightarrow> eta \<Rightarrow> string list \<Rightarrow> outcome" where
  "assign_floats upd self split_list =
     (case append_floats [] (tl split_list) of
        (vs, r) \<Rightarrow> Outcome (upd vs) [] r)"

text \<open>The body of the loop over the lines of the constraints file, in the order of the source.\<close>

definition process_line :: "eta \<Rightarrow> string \<Rightarrow> outcome" where
  "process_line self line =
     (let split_list = split_comma line;
          sw = lower (strip (hd split_list))
      in
      if switch_case sw (lower ''Minimum Fissions'') then
        assign_float (\<lambda>v. self\<lparr>min_fiss := v\<rparr>) self split_list
      else if switch_case sw (lower ''ETA Max Weight'') then
        assign_float (\<lambda>v. self\<lparr>max_weight := v\<rparr>) self split_list
      else if switch_case sw (lower ''Source Strength'') then
        assign_float (\<lambda>v. self\<lparr>src := v\<rparr>) self split_list
      else if switch_case sw (lower ''TCC to ETA Distance'') then
        assign_float (\<lambda>v. self\<lparr>tcc_dist := v\<rparr>) self split_list
      else if switch_case sw (lower ''Debris Shield Thickness'') then
        assign_float (\<lambda>v. self\<lparr>t_ds := v\<rparr>) self split_list
      else if switch_case sw (lower ''ETA Wall Thickness'') then
        assign_float (\<lambda>v. self\<lparr>t_w := v\<rparr>) self split_list
      else if switch_case sw (lower ''Snout Distance'') then
        assign_float (\<lambda>v. self\<lparr>snout_dist := v\<rparr>) self split_list
      else if switch_case sw (lower ''ETA Back Cover Thickness'') then
        assign_float (\<lambda>v. self\<lparr>t_c := v\<rparr>) self split_list
      else if switch_case sw (lower ''ETA to Snout Mount Thickness'') then
        assign_float (\<lambda>v. self\<lparr>t_m := v\<rparr>) self split_list
      else if switch_case sw (lower ''ETA Face Radius'') then
        assign_float (\<lambda>v. self\<lparr>r_f := v\<rparr>) self split_list
      else if switch_case sw (lower ''ETA Cone Outer Radius'') then
        assign_float (\<lambda>v. self\<lparr>r_o := v\<rparr>) self split_list
      else if switch_case sw (lower ''ETA Cone Opening Angle'') then
        assign_float (\<lambda>v. self\<lparr>theta := v\<rparr>) self split_list
      else if switch_case sw (lower ''Debris Shield Material'') then
        assign_str (\<lambda>v. self\<lparr>ds_mat := v\<rparr>) self split_list
      else if switch_case sw (lower ''ETA Structural Material'') then
        assign_str (\<lambda>v. self\<lparr>struct_mat := v\<rparr>) self split_list
      else if switch_case sw (lower ''ETA Void Fill Material'') then
        assign_str (\<lambda>v. self\<lparr>fill_mat := v\<rparr>) self split_list
      else if switch_case sw (lower ''Fissile Foil'') then
        assign_str (\<lambda>v. self\<lparr>fissile_mat := v\<rparr>) self split_list
      else if switch_case sw (lower ''NAS Thickness'') then
        assign_float (\<lambda>v. self\<lparr>t_nas := v\<rparr>) self split_list
      else if switch_case sw (lower ''NAS Radius'') then
        assign_float (\<lambda>v. self\<lparr>r_nas := v\<rparr>) self split_list
      else if switch_case sw (lower ''NAS Material'') then
        assign_str (\<lambda>v. self\<lparr>nas_mat := v\<rparr>) self split_list
      else if switch_case sw (lower ''NAS Activation Foils'') then
        assign_strs (\<lambda>v. self\<lparr>nas_mat_f := v\<rparr>) self split_list
      else if switch_case sw (lower ''NAS Activation Foil Thickness'') then
        assign_floats (\<lambda>v. self\<lparr>t_nas_f := v\<rparr>) self split_list
      else if switch_case sw (lower ''NAS Activation Foil Radius'') then
        assign_float (\<lambda>v. self\<lparr>r_nas_f := v\<rparr>) self split_list
      else if switch_case sw (lower ''TOAD Follows Material'') then
        assign_str (\<lambda>v. self\<lparr>toad_loc := v\<rparr>) self split_list
      else if switch_case sw (lower ''TOAD Material'') then
        assign_str (\<lambda>v. self\<lparr>toad_mat := v\<rparr>) self split_list
      else if switch_case sw (lower ''TOAD Activation Foils'') then
        assign_strs (\<lambda>v. self\<lparr>toad_mat_f := v\<rparr>) self split_list
      else if switch_case sw (lower ''TOAD Activation Foil Thickness'') then
        assign_floats (\<lambda>v. self\<lparr>t_toad := v\<rparr>) self split_list
      else if switch_case sw (lower ''TOAD Activation Foil Radius'') then
        assign_float (\<lambda>v. self\<lparr>r_toad := v\<rparr>) self split_list
      else if switch_case sw (lower ''Holder Material'') then
        assign_str (\<lambda>v. self\<lparr>holder_mat := v\<rparr>) self split_list
      else if switch_case sw (lower ''Holder Fill Material'') then
        assign_str (\<lambda>v. self\<lparr>h_fill_mat := v\<rparr>) self split_list
      else if switch_case sw (lower ''Holder Wall Thickness'') then
        assign_float (\<lambda>v. self\<lparr>t_h := v\<rparr>) self split_list
      else if switch_case sw (lower ''Max Vertical Components'') then
        assign_int (\<lambda>v. self\<lparr>max_vert := v\<rparr>) self split_list
      else if switch_case sw (lower ''Max Horizontal Components'') then
        assign_int (\<lambda>v. self\<lparr>max_horiz := v\<rparr>) self split_list
      else if switch_case sw ''/'' then
        Outcome self [] None
      else
        Outcome self [WarningUserInput (strip (hd split_list))] None)"

fun parse_lines :: "eta \<Rightarrow> string list \<Rightarrow> outcome" where
  "parse_lines self [] = Outcome self [] None"
| "parse_lines self (line # rest) =
     (case process_line self line of
        Outcome s1 lg1 (Some e) \<Rightarrow> Outcome s1 lg1 (Some e)
      | Outcome s1 lg1 None \<Rightarrow>
          (case parse_lines s1 rest of
             Outcome s2 lg2 r \<Rightarrow> Outcome s2 (lg1 @ lg2) r))"

text \<open>
  \<^verbatim>\<open>assert self.f.closed==True, "File did not close properly."\<close>: reading \<^verbatim>\<open>self.f\<close>
  raises AttributeError on an object that never had the attribute.
\<close>

definition assert_closed :: "eta \<Rightarrow> error option" where
  "assert_closed self =
     (case f_attr self of
        None \<Rightarrow> Some AttributeError
      | Some h \<Rightarrow>
          if closed h then None
          else Some (AssertionError ''File did not close properly.''))"

text \<open>
  The loop \<^verbatim>\<open>for i in range(0,len(self.toad_mat_f))\<close> that binds \<^verbatim>\<open>ind\<close>; \<open>None\<close> is
  the unbound local variable.
\<close>

definition find_ind :: "string list \<Rightarrow> string \<Rightarrow> nat option" where
  "find_ind mats fm =
     fold (\<lambda>i ind. if mats ! i = fm then Some i else ind) [0..<length mats] None"

text \<open>
  The last four lines of \<^verbatim>\<open>read_constraints\<close>:
  \<^verbatim>\<open>self.min_fiss=self.min_fiss/(self.src*self.r_toad**2*pi*self.t_toad[ind])\<close>.
\<close>

definition calc_min_fiss :: "eta \<Rightarrow> error + eta" where
  "calc_min_fiss self =
     (case find_ind (toad_mat_f self) (fissile_mat self) of
        None \<Rightarrow> Inl UnboundLocalError
      | Some ind \<Rightarrow>
          (case list_index (t_toad self) (int ind) of
             Inl e \<Rightarrow> Inl e
           | Inr t \<Rightarrow>
               (case py_div (min_fiss self) (src self * (r_toad self)\<^sup>2 * pi * t) of
                  Inl e \<Rightarrow> Inl e
                | Inr v \<Rightarrow> Inr (self\<lparr>min_fiss := v\<rparr>))))"

text \<open>The part of \<^verbatim>\<open>read_constraints\<close> after the \<^verbatim>\<open>try\<close> statement.\<close>

definition after_try :: "eta \<Rightarrow> log_record list \<Rightarrow> outcome" where
  "after_try self lg =
     (case assert_closed self of
        Some e \<Rightarrow> Outcome self lg (Some e)
      | None \<Rightarrow>
          (case calc_min_fiss self of
             Inl e \<Rightarrow> Outcome self lg (Some e)
           | Inr s \<Rightarrow> Outcome s lg None))"

text \<open>
  \<^verbatim>\<open>read_constraints\<close>. Only the IOError of \<^verbatim>\<open>open\<close> is caught; any other exception
  leaves the method at once, with the file still open.
\<close>

definition read_constraints :: "filesystem \<Rightarrow> eta \<Rightarrow> string \<Rightarrow> outcome" where
  "read_constraints fs self filename =
     (case fs filename of
        Inl (errno, strerror) \<Rightarrow>
          after_try self [ErrorIO errno strerror, ErrorFileNotFound filename]
      | Inr lines \<Rightarrow>
          (case parse_lines (self\<lparr>f_attr := Some (File False)\<rparr>) lines of
             Outcome s lg (Some e) \<Rightarrow> Outcome s lg (Some e)
           | Outcome s lg None \<Rightarrow> after_try (s\<lparr>f_attr := Some (File True)\<rparr>) lg))"

subsection \<open>The objective spectrum parser\<close>

text \<open>\<^verbatim>\<open>f.readline()\<close> on a fresh file: the first line, or the empty string at end of file.\<close>

definition readline :: "string list \<Rightarrow> string" where
  "readline lines = (case lines of [] \<Rightarrow> [] | l # _ \<Rightarrow> l)"

text \<open>
  The loop over the remaining lines:
  \<^verbatim>\<open>spectrum.append([float(split_list[0].strip()),float(split_list[1].strip())])\<close>,
  the first conversion before the second subscript.
\<close>

fun spectrum_rows :: "(real \<times> real) list \<Rightarrow> string list \<Rightarrow> error + (real \<times> real) list" where
  "spectrum_rows acc [] = Inr acc"
| "spectrum_rows acc (line # rest) =
     (let split_list = split_comma line
      in case float_item split_list 0 of
           Inl e \<Rightarrow> Inl e
         | Inr e_bin \<Rightarrow>
             (case float_item split_list 1 of
                Inl e \<Rightarrow> Inl e
              | Inr flux \<Rightarrow> spectrum_rows (acc @ [(e_bin, flux)]) rest))"

text \<open>
  \<^verbatim>\<open>read_obj\<close>. When \<^verbatim>\<open>open\<close> fails, the local \<^verbatim>\<open>spectrum\<close> is never bound, so the last
  statement raises if the assertion lets the call reach it.
\<close>

definition read_obj :: "filesystem \<Rightarrow> eta \<Rightarrow> string \<Rightarrow> outcome" where
  "read_obj fs self filename =
     (case fs filename of
        Inl (errno, strerror) \<Rightarrow>
          (let lg = [ErrorIO errno strerror, ErrorFileNotFound filename]
           in case assert_closed self of
                Some e \<Rightarrow> Outcome self lg (Some e)
              | None \<Rightarrow> Outcome self lg (Some UnboundLocalError))
      | Inr lines \<Rightarrow>
          (let self1 = self\<lparr>f_attr := Some (File False)\<rparr>;
               self2 = self1\<lparr>spectrum_type := strip (readline lines)\<rparr>
           in case spectrum_rows [] (tl lines) of
                Inl e \<Rightarrow> Outcome self2 [] (Some e)
              | Inr sp \<Rightarrow>
                  (let self3 = self2\<lparr>f_attr := Some (File True)\<rparr>
                   in case assert_closed self3 of
                        Some e \<Rightarrow> Outcome self3 [] (Some e)
                      | None \<Rightarrow> Outcome (self3\<lparr>spectrum := sp\<rparr>) [] None)))"

subsection \<open>Notions used to state the properties\<close>

text \<open>The keyword of a line: \<^verbatim>\<open>split_list[0].strip().lower()\<close>, the value that is switched on.\<close>

definition keyword :: "string \<Rightarrow> string" where
  "keyword line = lower (strip (hd (split_comma line)))"

text \<open>The object that \<^verbatim>\<open>ETA_Parameters()\<close> builds when every argument has its default.\<close>

definition default_eta :: eta where
  "default_eta =
     (store_args default_args)\<lparr>min_fiss :=
        5 * 10 ^ 8 / (5 * 10 ^ 15 * (1252 / 1000)\<^sup>2 * pi * (127 / 10000))\<rparr>"

text \<open>
  Two file systems for the examples: one where every path opens and holds the given lines,
  and one where every \<^verbatim>\<open>open\<close> fails with \<^verbatim>\<open>ENOENT\<close>.
\<close>

definition single_file :: "string list \<Rightarrow> filesystem" where
  "single_file lines path = Inr lines"



text \<open>
  The attribute that each recognized keyword names, as the cases of \<^verbatim>\<open>read_constraints\<close>
  pair them, with the current value of the attribute. \<open>None\<close> for any other string.
\<close>

datatype fieldval =
    FloatV real
  | IntV int
  | StrV string
  | StrsV "string list"
  | FloatsV "real list"

definition field_table :: "eta \<Rightarrow> (string \<times> fieldval) list" where
  "field_table self =
     [
      (lower ''Minimum Fissions'', FloatV (min_fiss self)),
      (lower ''ETA Max Weight'', FloatV (max_weight self)),
      (lower ''Source Strength'', FloatV (src self)),
      (lower ''TCC to ETA Distance'', FloatV (tcc_dist self)),
      (lower ''Debris Shield Thickness'', FloatV (t_ds self)),
      (lower ''ETA Wall Thickness'', FloatV (t_w self)),
      (lower ''Snout Distance'', FloatV (snout_dist self)),
      (lower ''ETA Back Cover Thickness'', FloatV (t_c self)),
      (lower ''ETA to Snout Mount Thickness'', FloatV (t_m self)),
      (lower ''ETA Face Radius'', FloatV (r_f self)),
      (lower ''ETA Cone Outer Radius'', FloatV (r_o self)),
      (lower ''ETA Cone Opening Angle'', FloatV (theta self)),
      (lower ''Debris Shield Material'', StrV (ds_mat self)),
      (lower ''ETA Structural Material'', StrV (struct_mat self)),
      (lower ''ETA Void Fill Material'', StrV (fill_mat self)),
      (lower ''Fissile Foil'', StrV (fissile_mat self)),
      (lower ''NAS Thickness'', FloatV (t_nas self)),
      (lower ''NAS Radius'', FloatV (r_nas self)),
      (lower ''NAS Material'', StrV (nas_mat self)),
      (lower ''NAS Activation Foils'', StrsV (nas_mat_f self)),
      (lower ''NAS Activation Foil Thickness'', FloatsV (t_nas_f self)),
      (lower ''NAS Activation Foil Radius'', FloatV (r_nas_f self)),
      (lower ''TOAD Follows Material'', StrV (toad_loc self)),
      (lower ''TOAD Material'', StrV (toad_mat self)),
      (lower ''TOAD Activation Foils'', StrsV (toad_mat_f self)),
      (lower ''TOAD Activation Foil Thickness'', FloatsV (t_toad self)),
      (lower ''TOAD Activation Foil Radius'', FloatV (r_toad self)),
      (lower ''Holder Material'', StrV (holder_mat self)),
      (lower ''Holder Fill Material'', StrV (h_fill_mat self)),
      (lower ''Holder Wall Thickness'', FloatV (t_h self)),
      (lower ''Max Vertical Components'', IntV (max_vert self)),
      (lower ''Max Horizontal Components'', IntV (max_horiz self))]"

definition field_of :: "string \<Rightarrow> eta \<Rightarrow> fieldval option" where
  "field_of k self = map_of (field_table self) k"

text \<open>
  The value that a line with the tokens \<open>toks\<close> gives to an attribute that now holds
  \<open>old\<close>, following the file format of the spec: a scalar keyword takes the token after
  the keyword, a list keyword takes every token after the keyword. \<open>None\<close> when a token
  is missing or is no number.
\<close>

definition assigned :: "fieldval \<Rightarrow> string list \<Rightarrow> fieldval option" where
  "assigned old toks =
     (case old of
        FloatV _ \<Rightarrow> (case float_item toks 1 of Inl _ \<Rightarrow> None | Inr v \<Rightarrow> Some (FloatV v))
      | IntV _ \<Rightarrow> (case int_item toks 1 of Inl _ \<Rightarrow> None | Inr v \<Rightarrow> Some (IntV v))
      | StrV _ \<Rightarrow> (case item toks 1 of Inl _ \<Rightarrow> None | Inr v \<Rightarrow> Some (StrV v))
      | StrsV _ \<Rightarrow> Some (StrsV (map strip (tl toks)))
      | FloatsV _ \<Rightarrow>
          (case append_floats [] (tl toks) of
             (vs, None) \<Rightarrow> Some (FloatsV vs)
           | (vs, Some _) \<Rightarrow> None))"


section \<open>Properties\<close>

subsection \<open>Evaluating the keywords\<close>

lemma lower_char_simps:
  "lower_char CHR '' '' = CHR '' ''"
  "lower_char CHR ''/'' = CHR ''/''"
  "lower_char CHR ''A'' = CHR ''a''"
  "lower_char CHR ''B'' = CHR ''b''"
  "lower_char CHR ''C'' = CHR ''c''"
  "lower_char CHR ''D'' = CHR ''d''"
  "lower_char CHR ''E'' = CHR ''e''"
  "lower_char CHR ''F'' = CHR ''f''"
  "lower_char CHR ''H'' = CHR ''h''"
  "lower_char CHR ''M'' = CHR ''m''"
  "lower_char CHR ''N'' = CHR ''n''"
  "lower_char CHR ''O'' = CHR ''o''"
  "lower_char CHR ''R'' = CHR ''r''"
  "lower_char CHR ''S'' = CHR ''s''"
  "lower_char CHR ''T'' = CHR ''t''"
  "lower_char CHR ''V'' = CHR ''v''"
  "lower_char CHR ''W'' = CHR ''w''"
  "lower_char CHR ''a'' = CHR ''a''"
  "lower_char CHR ''b'' = CHR ''b''"
  "lower_char CHR ''c'' = CHR ''c''"
  "lower_char CHR ''d'' = CHR ''d''"
  "lower_char CHR ''e'' = CHR ''e''"
  "lower_char CHR ''g'' = CHR ''g''"
  "lower_char CHR ''h'' = CHR ''h''"
  "lower_char CHR ''i'' = CHR ''i''"
  "lower_char CHR ''k'' = CHR ''k''"
  "lower_char CHR ''l'' = CHR ''l''"
  "lower_char CHR ''m'' = CHR ''m''"
  "lower_char CHR ''n'' = CHR ''n''"
  "lower_char CHR ''o'' = CHR ''o''"
  "lower_char CHR ''p'' = CHR ''p''"
  "lower_char CHR ''r'' = CHR ''r''"
  "lower_char CHR ''s'' = CHR ''s''"
  "lower_char CHR ''t'' = CHR ''t''"
  "lower_char CHR ''u'' = CHR ''u''"
  "lower_char CHR ''v'' = CHR ''v''"
  "lower_char CHR ''w'' = CHR ''w''"
  "lower_char CHR ''x'' = CHR ''x''"
  "lower_char CHR ''z'' = CHR ''z''"
  by (simp_all add: lower_char_def)

lemma lower_keywords:
  "lower ''Minimum Fissions'' = ''minimum fissions''"
  "lower ''ETA Max Weight'' = ''eta max weight''"
  "lower ''Source Strength'' = ''source strength''"
  "lower ''TCC to ETA Distance'' = ''tcc to eta distance''"
  "lower ''Debris Shield Thickness'' = ''debris shield thickness''"
  "lower ''ETA Wall Thickness'' = ''eta wall thickness''"
  "lower ''Snout Distance'' = ''snout distance''"
  "lower ''ETA Back Cover Thickness'' = ''eta back cover thickness''"
  "lower ''ETA to Snout Mount Thickness'' = ''eta to snout mount thickness''"
  "lower ''ETA Face Radius'' = ''eta face radius''"
  "lower ''ETA Cone Outer Radius'' = ''eta cone outer radius''"
  "lower ''ETA Cone Opening Angle'' = ''eta cone opening angle''"
  "lower ''Debris Shield Material'' = ''debris shield material''"
  "lower ''ETA Structural Material'' = ''eta structural material''"
  "lower ''ETA Void Fill Material'' = ''eta void fill material''"
  "lower ''Fissile Foil'' = ''fissile foil''"
  "lower ''NAS Thickness'' = ''nas thickness''"
  "lower ''NAS Radius'' = ''nas radius''"
  "lower ''NAS Material'' = ''nas material''"
  "lower ''NAS Activation Foils'' = ''nas activation foils''"
  "lower ''NAS Activation Foil Thickness'' = ''nas activation foil thickness''"
  "lower ''NAS Activation Foil Radius'' = ''nas activation foil radius''"
  "lower ''TOAD Follows Material'' = ''toad follows material''"
  "lower ''TOAD Material'' = ''toad material''"
  "lower ''TOAD Activation Foils'' = ''toad activation foils''"
  "lower ''TOAD Activation Foil Thickness'' = ''toad activation foil thickness''"
  "lower ''TOAD Activation Foil Radius'' = ''toad activation foil radius''"
  "lower ''Holder Material'' = ''holder material''"
  "lower ''Holder Fill Material'' = ''holder fill material''"
  "lower ''Holder Wall Thickness'' = ''holder wall thickness''"
  "lower ''Max Vertical Components'' = ''max vertical components''"
  "lower ''Max Horizontal Components'' = ''max horizontal components''"
  by (simp_all add: lower_def lower_char_simps)

subsection \<open>The effect of one line on each attribute\<close>

lemma state_assign:
  "state (assign_float upd self toks) =
     (case float_item toks 1 of Inl _ \<Rightarrow> self | Inr v \<Rightarrow> upd v)"
  "state (assign_int updi self toks) =
     (case int_item toks 1 of Inl _ \<Rightarrow> self | Inr v \<Rightarrow> updi v)"
  "state (assign_str upds self toks) =
     (case item toks 1 of Inl _ \<Rightarrow> self | Inr v \<Rightarrow> upds v)"
  "state (assign_strs updl self toks) = updl (map strip (tl toks))"
  "state (assign_floats updf self toks) = updf (fst (append_floats [] (tl toks)))"
  by (simp_all add: assign_float_def assign_int_def assign_str_def assign_strs_def
      assign_floats_def split: sum.splits prod.splits)

text \<open>A case leaves alone every attribute \<open>g\<close> that its assignment does not touch.\<close>

lemma assign_frame:
  "(\<And>v. g (upd v) = g self) \<Longrightarrow> g (state (assign_float upd self toks)) = g self"
  "(\<And>v. g (updi v) = g self) \<Longrightarrow> g (state (assign_int updi self toks)) = g self"
  "(\<And>v. g (upds v) = g self) \<Longrightarrow> g (state (assign_str upds self toks)) = g self"
  "(\<And>v. g (updl v) = g self) \<Longrightarrow> g (state (assign_strs updl self toks)) = g self"
  "(\<And>v. g (updf v) = g self) \<Longrightarrow> g (state (assign_floats updf self toks)) = g self"
  by (simp_all add: state_assign split: sum.splits)

text \<open>A line with a recognized keyword runs the case of that keyword.\<close>

lemma process_line_at:
  "keyword line = ''minimum fissions'' \<Longrightarrow>
     process_line self line = assign_float (\<lambda>v. self\<lparr>min_fiss := v\<rparr>) self (split_comma line)"
  "keyword line = ''eta max weight'' \<Longrightarrow>
     process_line self line = assign_float (\<lambda>v. self\<lparr>max_weight := v\<rparr>) self (split_comma line)"
  "keyword line = ''source strength'' \<Longrightarrow>
     process_line self line = assign_float (\<lambda>v. self\<lparr>src := v\<rparr>) self (split_comma line)"
  "keyword line = ''tcc to eta distance'' \<Longrightarrow>
     process_line self line = assign_float (\<lambda>v. self\<lparr>tcc_dist := v\<rparr>) self (split_comma line)"
  "keyword line = ''debris shield thickness'' \<Longrightarrow>
     process_line self line = assign_float (\<lambda>v. self\<lparr>t_ds := v\<rparr>) self (split_comma line)"
  "keyword line = ''eta wall thickness'' \<Longrightarrow>
     process_line self line = assign_float (\<lambda>v. self\<lparr>t_w := v\<rparr>) self (split_comma line)"
  "keyword line = ''snout distance'' \<Longrightarrow>
     process_line self line = assign_float (\<lambda>v. self\<lparr>snout_dist := v\<rparr>) self (split_comma line)"
  "keyword line = ''eta back cover thickness'' \<Longrightarrow>
     process_line self line = assign_float (\<lambda>v. self\<lparr>t_c := v\<rparr>) self (split_comma line)"
  "keyword line = ''eta to snout mount thickness'' \<Longrightarrow>
     process_line self line = assign_float (\<lambda>v. self\<lparr>t_m := v\<rparr>) self (split_comma line)"
  "keyword line = ''eta face radius'' \<Longrightarrow>
     process_line self line = assign_float (\<lambda>v. self\<lparr>r_f := v\<rparr>) self (split_comma line)"
  "keyword line = ''eta cone outer radius'' \<Longrightarrow>
     process_line self line = assign_float (\<lambda>v. self\<lparr>r_o := v\<rparr>) self (split_comma line)"
  "keyword line = ''eta cone opening angle'' \<Longrightarrow>
     process_line self line = assign_float (\<lambda>v. self\<lparr>theta := v\<rparr>) self (split_comma line)"
  "keyword line = ''debris shield material'' \<Longrightarrow>
     process_line self line = assign_str (\<lambda>v. self\<lparr>ds_mat := v\<rparr>) self (split_comma line)"
  "keyword line = ''eta structural material'' \<Longrightarrow>
     process_line self line = assign_str (\<lambda>v. self\<lparr>struct_mat := v\<rparr>) self (split_comma line)"
  "keyword line = ''eta void fill material'' \<Longrightarrow>
     process_line self line = assign_str (\<lambda>v. self\<lparr>fill_mat := v\<rparr>) self (split_comma line)"
  "keyword line = ''fissile foil'' \<Longrightarrow>
     process_line self line = assign_str (\<lambda>v. self\<lparr>fissile_mat := v\<rparr>) self (split_comma line)"
  "keyword line = ''nas thickness'' \<Longrightarrow>
     process_line self line = assign_float (\<lambda>v. self\<lparr>t_nas := v\<rparr>) self (split_comma line)"
  "keyword line = ''nas radius'' \<Longrightarrow>
     process_line self line = assign_float (\<lambda>v. self\<lparr>r_nas := v\<rparr>) self (split_comma line)"
  "keyword line = ''nas material'' \<Longrightarrow>
     process_line self line = assign_str (\<lambda>v. self\<lparr>nas_mat := v\<rparr>) self (split_comma line)"
  "keyword line = ''nas activation foils'' \<Longrightarrow>
     process_line self line = assign_strs (\<lambda>v. self\<lparr>nas_mat_f := v\<rparr>) self (split_comma line)"
  "keyword line = ''nas activation foil thickness'' \<Longrightarrow>
     process_line self line = assign_floats (\<lambda>v. self\<lparr>t_nas_f := v\<rparr>) self (split_comma line)"
  "keyword line = ''nas activation foil radius'' \<Longrightarrow>
     process_line self line = assign_float (\<lambda>v. self\<lparr>r_nas_f := v\<rparr>) self (split_comma line)"
  "keyword line = ''toad follows material'' \<Longrightarrow>
     process_line self line = assign_str (\<lambda>v. self\<lparr>toad_loc := v\<rparr>) self (split_comma line)"
  "keyword line = ''toad material'' \<Longrightarrow>
     process_line self line = assign_str (\<lambda>v. self\<lparr>toad_mat := v\<rparr>) self (split_comma line)"
  "keyword line = ''toad activation foils'' \<Longrightarrow>
     process_line self line = assign_strs (\<lambda>v. self\<lparr>toad_mat_f := v\<rparr>) self (split_comma line)"
  "keyword line = ''toad activation foil thickness'' \<Longrightarrow>
     process_line self line = assign_floats (\<lambda>v. self\<lparr>t_toad := v\<rparr>) self (split_comma line)"
  "keyword line = ''toad activation foil radius'' \<Longrightarrow>
     process_line self line = assign_float (\<lambda>v. self\<lparr>r_toad := v\<rparr>) self (split_comma line)"
  "keyword line = ''holder material'' \<Longrightarrow>
     process_line self line = assign_str (\<lambda>v. self\<lparr>holder_mat := v\<rparr>) self (split_comma line)"
  "keyword line = ''holder fill material'' \<Longrightarrow>
     process_line self line = assign_str (\<lambda>v. self\<lparr>h_fill_mat := v\<rparr>) self (split_comma line)"
  "keyword line = ''holder wall thickness'' \<Longrightarrow>
     process_line self line = assign_float (\<lambda>v. self\<lparr>t_h := v\<rparr>) self (split_comma line)"
  "keyword line = ''max vertical components'' \<Longrightarrow>
     process_line self line = assign_int (\<lambda>v. self\<lparr>max_vert := v\<rparr>) self (split_comma line)"
  "keyword line = ''max horizontal components'' \<Longrightarrow>
     process_line self line = assign_int (\<lambda>v. self\<lparr>max_horiz := v\<rparr>) self (split_comma line)"
  by (simp_all add: process_line_def keyword_def Let_def switch_case_def lower_keywords)

text \<open>
  One lemma for each attribute that a keyword names: the line changes it exactly when the
  line carries that keyword.
\<close>

lemma process_line_min_fiss:
  "min_fiss (state (process_line self line)) =
     (if keyword line = ''minimum fissions'' then (case float_item (split_comma line) 1 of Inl _ \<Rightarrow> min_fiss self | Inr v \<Rightarrow> v)
      else min_fiss self)"
proof (cases "keyword line = ''minimum fissions''")
  case True
  then show ?thesis
    by (simp add: process_line_at state_assign split: sum.splits)
next
  case False
  then show ?thesis
    by (simp add: process_line_def keyword_def Let_def switch_case_def lower_keywords
        if_distrib [of "\<lambda>x. min_fiss (state x)"] assign_frame [of min_fiss]
        split del: if_split cong: if_cong)
qed

lemma process_line_max_weight:
  "max_weight (state (process_line self line)) =
     (if keyword line = ''eta max weight'' then (case float_item (split_comma line) 1 of Inl _ \<Rightarrow> max_weight self | Inr v \<Rightarrow> v)
      else max_weight self)"
proof (cases "keyword line = ''eta max weight''")
  case True
  then show ?thesis
    by (simp add: process_line_at state_assign split: sum.splits)
next
  case False
  then show ?thesis
    by (simp add: process_line_def keyword_def Let_def switch_case_def lower_keywords
        if_distrib [of "\<lambda>x. max_weight (state x)"] assign_frame [of max_weight]
        split del: if_split cong: if_cong)
qed

lemma process_line_src:
  "src (state (process_line self line)) =
     (if keyword line = ''source strength'' then (case float_item (split_comma line) 1 of Inl _ \<Rightarrow> src self | Inr v \<Rightarrow> v)
      else src self)"
proof (cases "keyword line = ''source strength''")
  case True
  then show ?thesis
    by (simp add: process_line_at state_assign split: sum.splits)
next
  case False
  then show ?thesis
    by (simp add: process_line_def keyword_def Let_def switch_case_def lower_keywords
        if_distrib [of "\<lambda>x. src (state x)"] assign_frame [of src]
        split del: if_split cong: if_cong)
qed

lemma process_line_tcc_dist:
  "tcc_dist (state (process_line self line)) =
     (if keyword line = ''tcc to eta distance'' then (case float_item (split_comma line) 1 of Inl _ \<Rightarrow> tcc_dist self | Inr v \<Rightarrow> v)
      else tcc_dist self)"
proof (cases "keyword line = ''tcc to eta distance''")
  case True
  then show ?thesis
    by (simp add: process_line_at state_assign split: sum.splits)
next
  case False
  then show ?thesis
    by (simp add: process_line_def keyword_def Let_def switch_case_def lower_keywords
        if_distrib [of "\<lambda>x. tcc_dist (state x)"] assign_frame [of tcc_dist]
        split del: if_split cong: if_cong)
qed

lemma process_line_t_ds:
  "t_ds (state (process_line self line)) =
     (if keyword line = ''debris shield thickness'' then (case float_item (split_comma line) 1 of Inl _ \<Rightarrow> t_ds self | Inr v \<Rightarrow> v)
      else t_ds self)"
proof (cases "keyword line = ''debris shield thickness''")
  case True
  then show ?thesis
    by (simp add: process_line_at state_assign split: sum.splits)
next
  case False
  then show ?thesis
    by (simp add: process_line_def keyword_def Let_def switch_case_def lower_keywords
        if_distrib [of "\<lambda>x. t_ds (state x)"] assign_frame [of t_ds]
        split del: if_split cong: if_cong)
qed

lemma process_line_t_w:
  "t_w (state (process_line self line)) =
     (if keyword line = ''eta wall thickness'' then (case float_item (split_comma line) 1 of Inl _ \<Rightarrow> t_w self | Inr v \<Rightarrow> v)
      else t_w self)"
proof (cases "keyword line = ''eta wall thickness''")
  case True
  then show ?thesis
    by (simp add: process_line_at state_assign split: sum.splits)
next
  case False
  then show ?thesis
    by (simp add: process_line_def keyword_def Let_def switch_case_def lower_keywords
        if_distrib [of "\<lambda>x. t_w (state x)"] assign_frame [of t_w]
        split del: if_split cong: if_cong)
qed

lemma process_line_snout_dist:
  "snout_dist (state (process_line self line)) =
     (if keyword line = ''snout distance'' then (case float_item (split_comma line) 1 of Inl _ \<Rightarrow> snout_dist self | Inr v \<Rightarrow> v)
      else snout_dist self)"
proof (cases "keyword line = ''snout distance''")
  case True
  then show ?thesis
    by (simp add: process_line_at state_assign split: sum.splits)
next
  case False
  then show ?thesis
    by (simp add: process_line_def keyword_def Let_def switch_case_def lower_keywords
        if_distrib [of "\<lambda>x. snout_dist (state x)"] assign_frame [of snout_dist]
        split del: if_split cong: if_cong)
qed

lemma process_line_t_c:
  "t_c (state (process_line self line)) =
     (if keyword line = ''eta back cover thickness'' then (case float_item (split_comma line) 1 of Inl _ \<Rightarrow> t_c self | Inr v \<Rightarrow> v)
      else t_c self)"
proof (cases "keyword line = ''eta back cover thickness''")
  case True
  then show ?thesis
    by (simp add: process_line_at state_assign split: sum.splits)
next
  case False
  then show ?thesis
    by (simp add: process_line_def keyword_def Let_def switch_case_def lower_keywords
        if_distrib [of "\<lambda>x. t_c (state x)"] assign_frame [of t_c]
        split del: if_split cong: if_cong)
qed

lemma process_line_t_m:
  "t_m (state (process_line self line)) =
     (if keyword line = ''eta to snout mount thickness'' then (case float_item (split_comma line) 1 of Inl _ \<Rightarrow> t_m self | Inr v \<Rightarrow> v)
      else t_m self)"
proof (cases "keyword line = ''eta to snout mount thickness''")
  case True
  then show ?thesis
    by (simp add: process_line_at state_assign split: sum.splits)
next
  case False
  then show ?thesis
    by (simp add: process_line_def keyword_def Let_def switch_case_def lower_keywords
        if_distrib [of "\<lambda>x. t_m (state x)"] assign_frame [of t_m]
        split del: if_split cong: if_cong)
qed

lemma process_line_r_f:
  "r_f (state (process_line self line)) =
     (if keyword line = ''eta face radius'' then (case float_item (split_comma line) 1 of Inl _ \<Rightarrow> r_f self | Inr v \<Rightarrow> v)
      else r_f self)"
proof (cases "keyword line = ''eta face radius''")
  case True
  then show ?thesis
    by (simp add: process_line_at state_assign split: sum.splits)
next
  case False
  then show ?thesis
    by (simp add: process_line_def keyword_def Let_def switch_case_def lower_keywords
        if_distrib [of "\<lambda>x. r_f (state x)"] assign_frame [of r_f]
        split del: if_split cong: if_cong)
qed

lemma process_line_r_o:
  "r_o (state (process_line self line)) =
     (if keyword line = ''eta cone outer radius'' then (case float_item (split_comma line) 1 of Inl _ \<Rightarrow> r_o self | Inr v \<Rightarrow> v)
      else r_o self)"
proof (cases "keyword line = ''eta cone outer radius''")
  case True
  then show ?thesis
    by (simp add: process_line_at state_assign split: sum.splits)
next
  case False
  then show ?thesis
    by (simp add: process_line_def keyword_def Let_def switch_case_def lower_keywords
        if_distrib [of "\<lambda>x. r_o (state x)"] assign_frame [of r_o]
        split del: if_split cong: if_cong)
qed

lemma process_line_theta:
  "theta (state (process_line self line)) =
     (if keyword line = ''eta cone opening angle'' then (case float_item (split_comma line) 1 of Inl _ \<Rightarrow> theta self | Inr v \<Rightarrow> v)
      else theta self)"
proof (cases "keyword line = ''eta cone opening angle''")
  case True
  then show ?thesis
    by (simp add: process_line_at state_assign split: sum.splits)
next
  case False
  then show ?thesis
    by (simp add: process_line_def keyword_def Let_def switch_case_def lower_keywords
        if_distrib [of "\<lambda>x. theta (state x)"] assign_frame [of theta]
        split del: if_split cong: if_cong)
qed

lemma process_line_ds_mat:
  "ds_mat (state (process_line self line)) =
     (if keyword line = ''debris shield material'' then (case item (split_comma line) 1 of Inl _ \<Rightarrow> ds_mat self | Inr v \<Rightarrow> v)
      else ds_mat self)"
proof (cases "keyword line = ''debris shield material''")
  case True
  then show ?thesis
    by (simp add: process_line_at state_assign split: sum.splits)
next
  case False
  then show ?thesis
    by (simp add: process_line_def keyword_def Let_def switch_case_def lower_keywords
        if_distrib [of "\<lambda>x. ds_mat (state x)"] assign_frame [of ds_mat]
        split del: if_split cong: if_cong)
qed

lemma process_line_struct_mat:
  "struct_mat (state (process_line self line)) =
     (if keyword line = ''eta structural material'' then (case item (split_comma line) 1 of Inl _ \<Rightarrow> struct_mat self | Inr v \<Rightarrow> v)
      else struct_mat self)"
proof (cases "keyword line = ''eta structural material''")
  case True
  then show ?thesis
    by (simp add: process_line_at state_assign split: sum.splits)
next
  case False
  then show ?thesis
    by (simp add: process_line_def keyword_def Let_def switch_case_def lower_keywords
        if_distrib [of "\<lambda>x. struct_mat (state x)"] assign_frame [of struct_mat]
        split del: if_split cong: if_cong)
qed

lemma process_line_fill_mat:
  "fill_mat (state (process_line self line)) =
     (if keyword line = ''eta void fill material'' then (case item (split_comma line) 1 of Inl _ \<Rightarrow> fill_mat self | Inr v \<Rightarrow> v)
      else fill_mat self)"
proof (cases "keyword line = ''eta void fill material''")
  case True
  then show ?thesis
    by (simp add: process_line_at state_assign split: sum.splits)
next
  case False
  then show ?thesis
    by (simp add: process_line_def keyword_def Let_def switch_case_def lower_keywords
        if_distrib [of "\<lambda>x. fill_mat (state x)"] assign_frame [of fill_mat]
        split del: if_split cong: if_cong)
qed

lemma process_line_fissile_mat:
  "fissile_mat (state (process_line self line)) =
     (if keyword line = ''fissile foil'' then (case item (split_comma line) 1 of Inl _ \<Rightarrow> fissile_mat self | Inr v \<Rightarrow> v)
      else fissile_mat self)"
proof (cases "keyword line = ''fissile foil''")
  case True
  then show ?thesis
    by (simp add: process_line_at state_assign split: sum.splits)
next
  case False
  then show ?thesis
    by (simp add: process_line_def keyword_def Let_def switch_case_def lower_keywords
        if_distrib [of "\<lambda>x. fissile_mat (state x)"] assign_frame [of fissile_mat]
        split del: if_split cong: if_cong)
qed

lemma process_line_t_nas:
  "t_nas (state (process_line self line)) =
     (if keyword line = ''nas thickness'' then (case float_item (split_comma line) 1 of Inl _ \<Rightarrow> t_nas self | Inr v \<Rightarrow> v)
      else t_nas self)"
proof (cases "keyword line = ''nas thickness''")
  case True
  then show ?thesis
    by (simp add: process_line_at state_assign split: sum.splits)
next
  case False
  then show ?thesis
    by (simp add: process_line_def keyword_def Let_def switch_case_def lower_keywords
        if_distrib [of "\<lambda>x. t_nas (state x)"] assign_frame [of t_nas]
        split del: if_split cong: if_cong)
qed

lemma process_line_r_nas:
  "r_nas (state (process_line self line)) =
     (if keyword line = ''nas radius'' then (case float_item (split_comma line) 1 of Inl _ \<Rightarrow> r_nas self | Inr v \<Rightarrow> v)
      else r_nas self)"
proof (cases "keyword line = ''nas radius''")
  case True
  then show ?thesis
    by (simp add: process_line_at state_assign split: sum.splits)
next
  case False
  then show ?thesis
    by (simp add: process_line_def keyword_def Let_def switch_case_def lower_keywords
        if_distrib [of "\<lambda>x. r_nas (state x)"] assign_frame [of r_nas]
        split del: if_split cong: if_cong)
qed

lemma process_line_nas_mat:
  "nas_mat (state (process_line self line)) =
     (if keyword line = ''nas material'' then (case item (split_comma line) 1 of Inl _ \<Rightarrow> nas_mat self | Inr v \<Rightarrow> v)
      else nas_mat self)"
proof (cases "keyword line = ''nas material''")
  case True
  then show ?thesis
    by (simp add: process_line_at state_assign split: sum.splits)
next
  case False
  then show ?thesis
    by (simp add: process_line_def keyword_def Let_def switch_case_def lower_keywords
        if_distrib [of "\<lambda>x. nas_mat (state x)"] assign_frame [of nas_mat]
        split del: if_split cong: if_cong)
qed

lemma process_line_nas_mat_f:
  "nas_mat_f (state (process_line self line)) =
     (if keyword line = ''nas activation foils'' then map strip (tl (split_comma line))
      else nas_mat_f self)"
proof (cases "keyword line = ''nas activation foils''")
  case True
  then show ?thesis
    by (simp add: process_line_at state_assign split: sum.splits)
next
  case False
  then show ?thesis
    by (simp add: process_line_def keyword_def Let_def switch_case_def lower_keywords
        if_distrib [of "\<lambda>x. nas_mat_f (state x)"] assign_frame [of nas_mat_f]
        split del: if_split cong: if_cong)
qed

lemma process_line_t_nas_f:
  "t_nas_f (state (process_line self line)) =
     (if keyword line = ''nas activation foil thickness'' then fst (append_floats [] (tl (split_comma line)))
      else t_nas_f self)"
proof (cases "keyword line = ''nas activation foil thickness''")
  case True
  then show ?thesis
    by (simp add: process_line_at state_assign split: sum.splits)
next
  case False
  then show ?thesis
    by (simp add: process_line_def keyword_def Let_def switch_case_def lower_keywords
        if_distrib [of "\<lambda>x. t_nas_f (state x)"] assign_frame [of t_nas_f]
        split del: if_split cong: if_cong)
qed

lemma process_line_r_nas_f:
  "r_nas_f (state (process_line self line)) =
     (if keyword line = ''nas activation foil radius'' then (case float_item (split_comma line) 1 of Inl _ \<Rightarrow> r_nas_f self | Inr v \<Rightarrow> v)
      else r_nas_f self)"
proof (cases "keyword line = ''nas activation foil radius''")
  case True
  then show ?thesis
    by (simp add: process_line_at state_assign split: sum.splits)
next
  case False
  then show ?thesis
    by (simp add: process_line_def keyword_def Let_def switch_case_def lower_keywords
        if_distrib [of "\<lambda>x. r_nas_f (state x)"] assign_frame [of r_nas_f]
        split del: if_split cong: if_cong)
qed

lemma process_line_toad_loc:
  "toad_loc (state (process_line self line)) =
     (if keyword line = ''toad follows material'' then (case item (split_comma line) 1 of Inl _ \<Rightarrow> toad_loc self | Inr v \<Rightarrow> v)
      else toad_loc self)"
proof (cases "keyword line = ''toad follows material''")
  case True
  then show ?thesis
    by (simp add: process_line_at state_assign split: sum.splits)
next
  case False
  then show ?thesis
    by (simp add: process_line_def keyword_def Let_def switch_case_def lower_keywords
        if_distrib [of "\<lambda>x. toad_loc (state x)"] assign_frame [of toad_loc]
        split del: if_split cong: if_cong)
qed

lemma process_line_toad_mat:
  "toad_mat (state (process_line self line)) =
     (if keyword line = ''toad material'' then (case item (split_comma line) 1 of Inl _ \<Rightarrow> toad_mat self | Inr v \<Rightarrow> v)
      else toad_mat self)"
proof (cases "keyword line = ''toad material''")
  case True
  then show ?thesis
    by (simp add: process_line_at state_assign split: sum.splits)
next
  case False
  then show ?thesis
    by (simp add: process_line_def keyword_def Let_def switch_case_def lower_keywords
        if_distrib [of "\<lambda>x. toad_mat (state x)"] assign_frame [of toad_mat]
        split del: if_split cong: if_cong)
qed

lemma process_line_toad_mat_f:
  "toad_mat_f (state (process_line self line)) =
     (if keyword line = ''toad activation foils'' then map strip (tl (split_comma line))
      else toad_mat_f self)"
proof (cases "keyword line = ''toad activation foils''")
  case True
  then show ?thesis
    by (simp add: process_line_at state_assign split: sum.splits)
next
  case False
  then show ?thesis
    by (simp add: process_line_def keyword_def Let_def switch_case_def lower_keywords
        if_distrib [of "\<lambda>x. toad_mat_f (state x)"] assign_frame [of toad_mat_f]
        split del: if_split cong: if_cong)
qed

lemma process_line_t_toad:
  "t_toad (state (process_line self line)) =
     (if keyword line = ''toad activation foil thickness'' then fst (append_floats [] (tl (split_comma line)))
      else t_toad self)"
proof (cases "keyword line = ''toad activation foil thickness''")
  case True
  then show ?thesis
    by (simp add: process_line_at state_assign split: sum.splits)
next
  case False
  then show ?thesis
    by (simp add: process_line_def keyword_def Let_def switch_case_def lower_keywords
        if_distrib [of "\<lambda>x. t_toad (state x)"] assign_frame [of t_toad]
        split del: if_split cong: if_cong)
qed

lemma process_line_r_toad:
  "r_toad (state (process_line self line)) =
     (if keyword line = ''toad activation foil radius'' then (case float_item (split_comma line) 1 of Inl _ \<Rightarrow> r_toad self | Inr v \<Rightarrow> v)
      else r_toad self)"
proof (cases "keyword line = ''toad activation foil radius''")
  case True
  then show ?thesis
    by (simp add: process_line_at state_assign split: sum.splits)
next
  case False
  then show ?thesis
    by (simp add: process_line_def keyword_def Let_def switch_case_def lower_keywords
        if_distrib [of "\<lambda>x. r_toad (state x)"] assign_frame [of r_toad]
        split del: if_split cong: if_cong)
qed

lemma process_line_holder_mat:
  "holder_mat (state (process_line self line)) =
     (if keyword line = ''holder material'' then (case item (split_comma line) 1 of Inl _ \<Rightarrow> holder_mat self | Inr v \<Rightarrow> v)
      else holder_mat self)"
proof (cases "keyword line = ''holder material''")
  case True
  then show ?thesis
    by (simp add: process_line_at state_assign split: sum.splits)
next
  case False
  then show ?thesis
    by (simp add: process_line_def keyword_def Let_def switch_case_def lower_keywords
        if_distrib [of "\<lambda>x. holder_mat (state x)"] assign_frame [of holder_mat]
        split del: if_split cong: if_cong)
qed

lemma process_line_h_fill_mat:
  "h_fill_mat (state (process_line self line)) =
     (if keyword line = ''holder fill material'' then (case item (split_comma line) 1 of Inl _ \<Rightarrow> h_fill_mat self | Inr v \<Rightarrow> v)
      else h_fill_mat self)"
proof (cases "keyword line = ''holder fill material''")
  case True
  then show ?thesis
    by (simp add: process_line_at state_assign split: sum.splits)
next
  case False
  then show ?thesis
    by (simp add: process_line_def keyword_def Let_def switch_case_def lower_keywords
        if_distrib [of "\<lambda>x. h_fill_mat (state x)"] assign_frame [of h_fill_mat]
        split del: if_split cong: if_cong)
qed

lemma process_line_t_h:
  "t_h (state (process_line self line)) =
     (if keyword line = ''holder wall thickness'' then (case float_item (split_comma line) 1 of Inl _ \<Rightarrow> t_h self | Inr v \<Rightarrow> v)
      else t_h self)"
proof (cases "keyword line = ''holder wall thickness''")
  case True
  then show ?thesis
    by (simp add: process_line_at state_assign split: sum.splits)
next
  case False
  then show ?thesis
    by (simp add: process_line_def keyword_def Let_def switch_case_def lower_keywords
        if_distrib [of "\<lambda>x. t_h (state x)"] assign_frame [of t_h]
        split del: if_split cong: if_cong)
qed

lemma process_line_max_vert:
  "max_vert (state (process_line self line)) =
     (if keyword line = ''max vertical components'' then (case int_item (split_comma line) 1 of Inl _ \<Rightarrow> max_vert self | Inr v \<Rightarrow> v)
      else max_vert self)"
proof (cases "keyword line = ''max vertical components''")
  case True
  then show ?thesis
    by (simp add: process_line_at state_assign split: sum.splits)
next
  case False
  then show ?thesis
    by (simp add: process_line_def keyword_def Let_def switch_case_def lower_keywords
        if_distrib [of "\<lambda>x. max_vert (state x)"] assign_frame [of max_vert]
        split del: if_split cong: if_cong)
qed

lemma process_line_max_horiz:
  "max_horiz (state (process_line self line)) =
     (if keyword line = ''max horizontal components'' then (case int_item (split_comma line) 1 of Inl _ \<Rightarrow> max_horiz self | Inr v \<Rightarrow> v)
      else max_horiz self)"
proof (cases "keyword line = ''max horizontal components''")
  case True
  then show ?thesis
    by (simp add: process_line_at state_assign split: sum.splits)
next
  case False
  then show ?thesis
    by (simp add: process_line_def keyword_def Let_def switch_case_def lower_keywords
        if_distrib [of "\<lambda>x. max_horiz (state x)"] assign_frame [of max_horiz]
        split del: if_split cong: if_cong)
qed

lemmas process_line_fields =
  process_line_min_fiss process_line_max_weight process_line_src process_line_tcc_dist
  process_line_t_ds process_line_t_w process_line_snout_dist process_line_t_c
  process_line_t_m process_line_r_f process_line_r_o process_line_theta process_line_ds_mat
  process_line_struct_mat process_line_fill_mat process_line_fissile_mat process_line_t_nas
  process_line_r_nas process_line_nas_mat process_line_nas_mat_f process_line_t_nas_f
  process_line_r_nas_f process_line_toad_loc process_line_toad_mat process_line_toad_mat_f
  process_line_t_toad process_line_r_toad process_line_holder_mat process_line_h_fill_mat
  process_line_t_h process_line_max_vert process_line_max_horiz

subsection \<open>The attribute named by a keyword\<close>

lemma field_of_simps:
  "field_of ''minimum fissions'' s = Some (FloatV (min_fiss s))"
  "field_of ''eta max weight'' s = Some (FloatV (max_weight s))"
  "field_of ''source strength'' s = Some (FloatV (src s))"
  "field_of ''tcc to eta distance'' s = Some (FloatV (tcc_dist s))"
  "field_of ''debris shield thickness'' s = Some (FloatV (t_ds s))"
  "field_of ''eta wall thickness'' s = Some (FloatV (t_w s))"
  "field_of ''snout distance'' s = Some (FloatV (snout_dist s))"
  "field_of ''eta back cover thickness'' s = Some (FloatV (t_c s))"
  "field_of ''eta to snout mount thickness'' s = Some (FloatV (t_m s))"
  "field_of ''eta face radius'' s = Some (FloatV (r_f s))"
  "field_of ''eta cone outer radius'' s = Some (FloatV (r_o s))"
  "field_of ''eta cone opening angle'' s = Some (FloatV (theta s))"
  "field_of ''debris shield material'' s = Some (StrV (ds_mat s))"
  "field_of ''eta structural material'' s = Some (StrV (struct_mat s))"
  "field_of ''eta void fill material'' s = Some (StrV (fill_mat s))"
  "field_of ''fissile foil'' s = Some (StrV (fissile_mat s))"
  "field_of ''nas thickness'' s = Some (FloatV (t_nas s))"
  "field_of ''nas radius'' s = Some (FloatV (r_nas s))"
  "field_of ''nas material'' s = Some (StrV (nas_mat s))"
  "field_of ''nas activation foils'' s = Some (StrsV (nas_mat_f s))"
  "field_of ''nas activation foil thickness'' s = Some (FloatsV (t_nas_f s))"
  "field_of ''nas activation foil radius'' s = Some (FloatV (r_nas_f s))"
  "field_of ''toad follows material'' s = Some (StrV (toad_loc s))"
  "field_of ''toad material'' s = Some (StrV (toad_mat s))"
  "field_of ''toad activation foils'' s = Some (StrsV (toad_mat_f s))"
  "field_of ''toad activation foil thickness'' s = Some (FloatsV (t_toad s))"
  "field_of ''toad activation foil radius'' s = Some (FloatV (r_toad s))"
  "field_of ''holder material'' s = Some (StrV (holder_mat s))"
  "field_of ''holder fill material'' s = Some (StrV (h_fill_mat s))"
  "field_of ''holder wall thickness'' s = Some (FloatV (t_h s))"
  "field_of ''max vertical components'' s = Some (IntV (max_vert s))"
  "field_of ''max horizontal components'' s = Some (IntV (max_horiz s))"
  by (simp_all add: field_of_def field_table_def lower_keywords)

lemma field_of_keyword:
  assumes "field_of k s = Some old"
  shows
    "k = ''minimum fissions'' \<or> k = ''eta max weight'' \<or>
     k = ''source strength'' \<or> k = ''tcc to eta distance'' \<or>
     k = ''debris shield thickness'' \<or> k = ''eta wall thickness'' \<or>
     k = ''snout distance'' \<or> k = ''eta back cover thickness'' \<or>
     k = ''eta to snout mount thickness'' \<or> k = ''eta face radius'' \<or>
     k = ''eta cone outer radius'' \<or> k = ''eta cone opening angle'' \<or>
     k = ''debris shield material'' \<or> k = ''eta structural material'' \<or>
     k = ''eta void fill material'' \<or> k = ''fissile foil'' \<or>
     k = ''nas thickness'' \<or> k = ''nas radius'' \<or> k = ''nas material'' \<or>
     k = ''nas activation foils'' \<or> k = ''nas activation foil thickness'' \<or>
     k = ''nas activation foil radius'' \<or> k = ''toad follows material'' \<or>
     k = ''toad material'' \<or> k = ''toad activation foils'' \<or>
     k = ''toad activation foil thickness'' \<or> k = ''toad activation foil radius'' \<or>
     k = ''holder material'' \<or> k = ''holder fill material'' \<or>
     k = ''holder wall thickness'' \<or> k = ''max vertical components'' \<or>
     k = ''max horizontal components''"
proof -
  from assms have "(k, old) \<in> set (field_table s)"
    unfolding field_of_def by (rule map_of_SomeD)
  then show ?thesis
    by (auto simp: field_table_def lower_keywords)
qed

lemma field_of_None_iff: "field_of k s = None \<longleftrightarrow> field_of k s' = None"
  by (simp add: field_of_def field_table_def map_of_eq_None_iff)

text \<open>A line changes no attribute named by another keyword.\<close>

lemma field_of_other:
  assumes "keyword line \<noteq> k"
  shows "field_of k (state (process_line self line)) = field_of k self"
proof (cases "field_of k self")
  case None
  then show ?thesis
    using field_of_None_iff [of k self "state (process_line self line)"] by simp
next
  case (Some old)
  show ?thesis
    using field_of_keyword [OF Some] assms
    by (elim disjE) (simp_all add: field_of_simps process_line_fields)
qed

lemma append_floats_length:
  "append_floats acc ts = (vs, None) \<Longrightarrow> length vs = length acc + length ts"
  by (induction ts arbitrary: acc) (auto split: option.splits)

text \<open>A line that is processed without an exception gives its value to the attribute it names.\<close>

lemma field_of_same:
  assumes "keyword line = k" and "field_of k self = Some old"
    and "raised (process_line self line) = None"
  shows "field_of k (state (process_line self line)) = assigned old (split_comma line)"
  using field_of_keyword [OF assms(2)] assms
  by (elim disjE)
     (auto simp: field_of_simps process_line_at assigned_def assign_float_def assign_int_def
        assign_str_def assign_strs_def assign_floats_def
        split: sum.splits prod.splits option.splits)

lemma field_of_min_fiss_update:
  "k \<noteq> ''minimum fissions'' \<Longrightarrow> field_of k (s\<lparr>min_fiss := v\<rparr>) = field_of k s"
  by (simp add: field_of_def field_table_def lower_keywords)

lemma field_of_f_attr_update: "field_of k (s\<lparr>f_attr := h\<rparr>) = field_of k s"
  by (simp add: field_of_def field_table_def)

subsection \<open>The constructor\<close>

lemma init_ind_fallback: "init_ind mats fm = PyInt (- 1)"
proof -
  have "filter (\<lambda>i. py_eq i (PyStr fm)) (enumerate_py mats) = []"
    by (auto simp: enumerate_py_def filter_empty_conv)
  then show ?thesis by (simp add: init_ind_def next_py_def)
qed

lemma list_index_last:
  "list_index xs (- 1) = (if xs = [] then Inl IndexError else Inr (last xs))"
  by (cases xs rule: rev_cases) (auto simp: list_index_def Let_def nth_append)

lemma init_default: "init default_args = Inr default_eta"
  by (simp add: init_def Let_def init_ind_fallback list_index_last py_div_def store_args_def
      default_args_def default_eta_def)

lemma default_eta_fields:
  "toad_mat_f default_eta = [''Au'', ''Pb'']"
  "fissile_mat default_eta = ''Pb''"
  "t_toad default_eta = [254 / 10000, 127 / 10000]"
  "nas_mat_f default_eta = [''Zr'', ''Zn'', ''In'', ''Al'', ''Ta'']"
  "t_nas_f default_eta = [1 / 10, 1 / 10, 1 / 10, 1 / 10, 1 / 100]"
  "src default_eta = 5 * 10 ^ 15"
  "r_toad default_eta = 1252 / 1000"
  "f_attr default_eta = None"
  "min_fiss default_eta = 5 * 10 ^ 8 / (5 * 10 ^ 15 * (1252 / 1000)\<^sup>2 * pi * (127 / 10000))"
  by (simp_all add: default_eta_def store_args_def default_args_def)



text \<open>
  C1. The claim asks for the thickness at the index where \<open>fissile_mat\<close> stands in
  \<open>toad_foil_mat\<close>. With \<open>fissile_mat = 'Au'\<close> and the default lists \<open>['Au', 'Pb']\<close> and
  \<open>[0.0254, 0.0127]\<close> that index is 0 and the thickness 0.0254; the constructor divides by
  the last thickness, 0.0127, and the two quotients differ.
\<close>

theorem init_ignores_fissile_position:
  "init (default_args\<lparr>arg_fissile_mat := ''Au''\<rparr>) =
     Inr ((store_args (default_args\<lparr>arg_fissile_mat := ''Au''\<rparr>))\<lparr>min_fiss :=
        5 * 10 ^ 8 / (5 * 10 ^ 15 * (1252 / 1000)\<^sup>2 * pi * (127 / 10000))\<rparr>) \<and>
   arg_toad_foil_mat (default_args\<lparr>arg_fissile_mat := ''Au''\<rparr>) ! 0 = ''Au'' \<and>
   arg_toad_foil_th (default_args\<lparr>arg_fissile_mat := ''Au''\<rparr>) ! 0 = 254 / 10000 \<and>
   (5 * 10 ^ 8 / (5 * 10 ^ 15 * (1252 / 1000)\<^sup>2 * pi * (127 / 10000)) :: real) \<noteq>
     5 * 10 ^ 8 / (5 * 10 ^ 15 * (1252 / 1000)\<^sup>2 * pi * (254 / 10000))"
  by (simp add: init_def Let_def init_ind_fallback list_index_last py_div_def store_args_def
      default_args_def)

subsection \<open>The objective spectrum parser\<close>

lemma strip_simps:
  "strip ''normalized\<newline>'' = ''normalized''"
  "strip ''1.0'' = ''1.0''"
  "strip ''0.1\<newline>'' = ''0.1''"
  "strip ''2.0'' = ''2.0''"
  "strip ''0.05\<newline>'' = ''0.05''"
  "strip ''ETA Max Weight'' = ''ETA Max Weight''"
  "strip ''100.0'' = ''100.0''"
  "strip ''100.0\<newline>'' = ''100.0''"
  "strip ''Foo'' = ''Foo''"
  by (simp_all add: strip_def is_space_def)

lemma float_simps:
  "py_float ''1.0'' = Some 1"
  "py_float ''0.1'' = Some (1 / 10)"
  "py_float ''2.0'' = Some 2"
  "py_float ''0.05'' = Some (5 / 100)"
  "py_float ''100.0'' = Some 100"
  by (simp_all add: py_float_def split_sign_def mantissa_def is_exp_char_def py_nat_def
      digit_of_def Let_def)


lemma spectrum_rows_all2:
  assumes "list_all2 (\<lambda>row p. float_item (split_comma row) 0 = Inr (fst p) \<and>
      float_item (split_comma row) 1 = Inr (snd p)) rows sp"
  shows "spectrum_rows acc rows = Inr (acc @ sp)"
  using assms
  by (induction rows sp arbitrary: acc rule: list_all2_induct) (simp_all add: Let_def)

text \<open>
  C7. Let the file hold a first line and then rows whose first two tokens are the floats
  of the pairs \<open>sp\<close>, row by row. Then \<^verbatim>\<open>read_obj\<close> returns without an exception and
  without a log record, sets \<open>spectrum_type\<close> to the trimmed first line and \<open>spectrum\<close>
  to \<open>sp\<close>, the rows in the order of the file, and leaves the file closed. The file of
  the claim (\<^verbatim>\<open>normalized\<close>, \<^verbatim>\<open>1.0,0.1\<close>, \<^verbatim>\<open>2.0,0.05\<close>) and the same file with its two
  rows exchanged are the instances below: the second shows that nothing is sorted.
\<close>

theorem read_obj_keeps_file_order:
  assumes "fs filename = Inr (first # rows)"
    and "list_all2 (\<lambda>row p. float_item (split_comma row) 0 = Inr (fst p) \<and>
      float_item (split_comma row) 1 = Inr (snd p)) rows sp"
  shows "read_obj fs self filename =
     Outcome (self\<lparr>f_attr := Some (File True), spectrum_type := strip first, spectrum := sp\<rparr>)
       [] None"
  using assms(1) spectrum_rows_all2 [OF assms(2), of "[]"]
  by (simp add: read_obj_def Let_def readline_def assert_closed_def)

theorem read_obj_keeps_file_order_witness:
  "single_file [''normalized\<newline>'', ''1.0,0.1\<newline>'', ''2.0,0.05\<newline>''] ''objective.csv'' =
     Inr (''normalized\<newline>'' # [''1.0,0.1\<newline>'', ''2.0,0.05\<newline>'']) \<and>
   read_obj (single_file [''normalized\<newline>'', ''1.0,0.1\<newline>'', ''2.0,0.05\<newline>''])
       default_eta ''objective.csv'' =
     Outcome
       (default_eta\<lparr>f_attr := Some (File True), spectrum_type := ''normalized'',
          spectrum := [(1, 1 / 10), (2, 5 / 100)]\<rparr>) [] None \<and>
   read_obj (single_file [''normalized\<newline>'', ''2.0,0.05\<newline>'', ''1.0,0.1\<newline>''])
       default_eta ''objective.csv'' =
     Outcome
       (default_eta\<lparr>f_attr := Some (File True), spectrum_type := ''normalized'',
          spectrum := [(2, 5 / 100), (1, 1 / 10)]\<rparr>) [] None"
proof -
  let ?n = "''normalized\<newline>''" and ?a = "''1.0,0.1\<newline>''" and ?b = "''2.0,0.05\<newline>''"
  have f1: "single_file [?n, ?a, ?b] ''objective.csv'' = Inr (?n # [?a, ?b])"
    and f2: "single_file [?n, ?b, ?a] ''objective.csv'' = Inr (?n # [?b, ?a])"
    by (simp_all add: single_file_def)
  have r1: "list_all2 (\<lambda>row p. float_item (split_comma row) 0 = Inr (fst p) \<and>
      float_item (split_comma row) 1 = Inr (snd p)) [?a, ?b] [(1, 1 / 10), (2, 5 / 100)]"
    and r2: "list_all2 (\<lambda>row p. float_item (split_comma row) 0 = Inr (fst p) \<and>
      float_item (split_comma row) 1 = Inr (snd p)) [?b, ?a] [(2, 5 / 100), (1, 1 / 10)]"
    by (simp_all add: float_item_def item_def list_index_def strip_simps float_simps)
  show ?thesis
    using read_obj_keeps_file_order [where fs = "single_file [?n, ?a, ?b]", OF f1 r1, of default_eta]
      read_obj_keeps_file_order [where fs = "single_file [?n, ?b, ?a]", OF f2 r2, of default_eta]
      f1
    by (simp add: strip_simps)
qed

subsection \<open>The loop over the lines\<close>

lemma outcome_eqI:
  "state a = state b \<Longrightarrow> logs a = logs b \<Longrightarrow> raised a = raised b \<Longrightarrow> a = b"
  by (cases a; cases b) simp

lemma parse_lines_Cons:
  "state (parse_lines self (line # rest)) =
     (if raised (process_line self line) = None
      then state (parse_lines (state (process_line self line)) rest)
      else state (process_line self line))"
  "raised (parse_lines self (line # rest)) =
     (if raised (process_line self line) = None
      then raised (parse_lines (state (process_line self line)) rest)
      else raised (process_line self line))"
  "logs (parse_lines self (line # rest)) =
     (if raised (process_line self line) = None
      then logs (process_line self line) @ logs (parse_lines (state (process_line self line)) rest)
      else logs (process_line self line))"
  by (cases "process_line self line"; cases "raised (process_line self line)";
      cases "parse_lines (state (process_line self line)) rest"; simp)+

declare parse_lines.simps(2) [simp del]

lemma parse_lines_frame:
  "\<forall>l\<in>set ls. keyword l \<noteq> k \<Longrightarrow> field_of k (state (parse_lines self ls)) = field_of k self"
  by (induction ls arbitrary: self) (simp_all add: parse_lines_Cons field_of_other)

lemma parse_lines_append:
  "raised (parse_lines self (xs @ ys)) = None \<Longrightarrow>
     raised (parse_lines self xs) = None \<and>
     raised (parse_lines (state (parse_lines self xs)) ys) = None \<and>
     state (parse_lines self (xs @ ys)) = state (parse_lines (state (parse_lines self xs)) ys)"
  by (induction xs arbitrary: self)
     (simp_all add: parse_lines_Cons split: if_splits)

lemma assigned_same_kind:
  assumes "field_of k s = Some old" and "field_of k s' = Some old'"
  shows "assigned old toks = assigned old' toks"
  using field_of_keyword [OF assms(1)] assms
  by (elim disjE) (auto simp: field_of_simps assigned_def)

lemma parse_lines_last_write:
  assumes ok: "raised (parse_lines self (pre @ line # post)) = None"
    and k: "keyword line = k"
    and old: "field_of k self = Some old"
    and post: "\<forall>l\<in>set post. keyword l \<noteq> k"
  shows "field_of k (state (parse_lines self (pre @ line # post))) = assigned old (split_comma line)"
proof -
  define s1 where "s1 = state (parse_lines self pre)"
  define s2 where "s2 = state (process_line s1 line)"
  from parse_lines_append [OF ok]
  have r1: "raised (parse_lines s1 (line # post)) = None"
    and st: "state (parse_lines self (pre @ line # post)) = state (parse_lines s1 (line # post))"
    by (simp_all add: s1_def)
  from r1 have r2: "raised (process_line s1 line) = None"
    by (simp add: parse_lines_Cons split: if_splits)
  with st have st2: "state (parse_lines self (pre @ line # post)) = state (parse_lines s2 post)"
    by (simp add: parse_lines_Cons s2_def)
  from old obtain old1 where old1: "field_of k s1 = Some old1"
    using field_of_None_iff [of k self s1] by (cases "field_of k s1") auto
  have "field_of k s2 = assigned old1 (split_comma line)"
    unfolding s2_def using k old1 r2 by (rule field_of_same)
  also have "\<dots> = assigned old (split_comma line)"
    using old1 old by (rule assigned_same_kind)
  finally show ?thesis
    using parse_lines_frame [OF post, of s2] st2 by simp
qed

lemma find_ind_upto:
  "n \<le> length mats \<Longrightarrow>
     (case fold (\<lambda>i ind. if mats ! i = fm then Some i else ind) [0..<n] None of
        None \<Rightarrow> \<forall>j<n. mats ! j \<noteq> fm
      | Some i \<Rightarrow> i < n \<and> mats ! i = fm \<and> (\<forall>j. i < j \<and> j < n \<longrightarrow> mats ! j \<noteq> fm))"
proof (induction n)
  case 0
  then show ?case by simp
next
  case (Suc n)
  then show ?case
    by (auto split: option.splits simp: less_Suc_eq)
qed

lemma find_ind_Some:
  "find_ind mats fm = Some i \<Longrightarrow>
     i < length mats \<and> mats ! i = fm \<and> (\<forall>j. i < j \<and> j < length mats \<longrightarrow> mats ! j \<noteq> fm)"
  using find_ind_upto [of "length mats" mats fm] by (simp add: find_ind_def)

lemma find_ind_None: "find_ind mats fm = None \<longleftrightarrow> fm \<notin> set mats"
  using find_ind_upto [of "length mats" mats fm]
  by (auto simp: find_ind_def in_set_conv_nth split: option.splits)

lemma calc_min_fiss_Inr:
  assumes "calc_min_fiss s = Inr r"
  obtains i where "find_ind (toad_mat_f s) (fissile_mat s) = Some i"
    and "i < length (t_toad s)"
    and "src s * (r_toad s)\<^sup>2 * pi * t_toad s ! i \<noteq> 0"
    and "r = s\<lparr>min_fiss := min_fiss s / (src s * (r_toad s)\<^sup>2 * pi * t_toad s ! i)\<rparr>"
  using assms
  by (auto simp: calc_min_fiss_def list_index_def py_div_def split: option.splits sum.splits if_splits)

lemma read_constraints_Inr:
  assumes "fs filename = Inr lines"
    and "raised (read_constraints fs self filename) = None"
  shows "raised (parse_lines (self\<lparr>f_attr := Some (File False)\<rparr>) lines) = None \<and>
     calc_min_fiss ((state (parse_lines (self\<lparr>f_attr := Some (File False)\<rparr>) lines))\<lparr>f_attr := Some (File True)\<rparr>) =
       Inr (state (read_constraints fs self filename))"
  using assms
  by (cases "parse_lines (self\<lparr>f_attr := Some (File False)\<rparr>) lines")
     (auto simp: read_constraints_def after_try_def assert_closed_def split: option.splits sum.splits)

subsection \<open>Arithmetic of the default object\<close>

lemma default_denominator_gt_1:
  "1 < (5 * 10 ^ 15 * (1252 / 1000)\<^sup>2 * pi * (127 / 10000) :: real)"
proof -
  have "(1::real) < 5 * 10 ^ 15 * (1252 / 1000)\<^sup>2 * 2 * (127 / 10000)"
    by (simp add: power2_eq_square)
  also have "\<dots> \<le> 5 * 10 ^ 15 * (1252 / 1000)\<^sup>2 * pi * (127 / 10000)"
    using pi_ge_two by simp
  finally show ?thesis .
qed

lemma divide_neq_self:
  fixes x d :: real
  assumes "0 < x" and "1 < d"
  shows "x / d \<noteq> x"
proof -
  from assms have "x / d < x"
    by (simp add: pos_divide_less_eq)
  then show ?thesis by simp
qed

subsection \<open>Comment lines\<close>

lemma comment_keyword:
  assumes "strip (hd (split_comma line)) = CHR ''/'' # rest"
  shows "process_line self line =
     Outcome self (if rest = [] then [] else [WarningUserInput (CHR ''/'' # rest)]) None"
  using assms
  by (simp add: process_line_def Let_def switch_case_def lower_keywords lower_def
      lower_char_simps)

text \<open>
  C8. A line whose first token, after trimming, begins with \<^verbatim>\<open>/\<close> is processed without an
  exception and leaves the object as it was, whatever follows on the line (the token
  \<^verbatim>\<open>/\<close> alone is the comment case, a longer token reaches the default case, which only
  logs a warning); so parsing a file that holds such a line ends in the same object, and in
  the same exception if any, as parsing the file without that line.
\<close>

theorem comment_line_mutates_nothing:
  assumes "strip (hd (split_comma line)) = CHR ''/'' # rest"
  shows "state (process_line self line) = self \<and>
     raised (process_line self line) = None \<and>
     state (parse_lines self (pre @ line # post)) = state (parse_lines self (pre @ post)) \<and>
     raised (parse_lines self (pre @ line # post)) = raised (parse_lines self (pre @ post))"
proof -
  have "state (parse_lines s (pre @ line # post)) = state (parse_lines s (pre @ post)) \<and>
      raised (parse_lines s (pre @ line # post)) = raised (parse_lines s (pre @ post))" for s
    by (induction pre arbitrary: s) (simp_all add: parse_lines_Cons comment_keyword [OF assms])
  then show ?thesis
    by (simp add: comment_keyword [OF assms])
qed

lemma comment_example:
  "strip (hd (split_comma ''/ ETA Max Weight,100.0\<newline>'')) = CHR ''/'' # '' ETA Max Weight''"
  by (simp add: strip_def is_space_def)

theorem comment_line_mutates_nothing_witness:
  "strip (hd (split_comma ''/ ETA Max Weight,100.0\<newline>'')) = CHR ''/'' # '' ETA Max Weight'' \<and>
   state (process_line default_eta ''/ ETA Max Weight,100.0\<newline>'') = default_eta \<and>
   raised (process_line default_eta ''/ ETA Max Weight,100.0\<newline>'') = None \<and>
   state (parse_lines default_eta [''/ ETA Max Weight,100.0\<newline>'']) = default_eta \<and>
   raised (parse_lines default_eta [''/ ETA Max Weight,100.0\<newline>'']) = None"
  using comment_line_mutates_nothing [OF comment_example, of default_eta "[]" "[]"]
    comment_example
  by simp

subsection \<open>Two one-line files on the default object\<close>

lemma min_fiss_default_pos: "0 < min_fiss default_eta"
  by (simp add: default_eta_fields)

lemma find_ind_default: "find_ind [''Au'', ''Pb''] ''Pb'' = Some 1"
  by (simp add: find_ind_def upt_rec)

lemma example_keywords:
  "keyword ''ETA Max Weight,100.0'' = ''eta max weight''"
  "keyword ''ETA Max Weight,100.0\<newline>'' = ''eta max weight''"
  "keyword ''Foo,1'' = ''foo''"
  "keyword ''Foo,1\<newline>'' = ''foo''"
  by (simp_all add: keyword_def strip_def is_space_def lower_def lower_char_simps)

lemma max_weight_line:
  "process_line s ''ETA Max Weight,100.0'' = Outcome (s\<lparr>max_weight := 100\<rparr>) [] None"
  "process_line s ''ETA Max Weight,100.0\<newline>'' = Outcome (s\<lparr>max_weight := 100\<rparr>) [] None"
  by (simp_all add: process_line_at example_keywords assign_float_def float_item_def item_def
      list_index_def strip_simps float_simps)

lemma after_try_default:
  "max_weight_update g (default_eta\<lparr>f_attr := Some (File True)\<rparr>) = s \<Longrightarrow>
   after_try s lg =
     Outcome (s\<lparr>min_fiss :=
        min_fiss default_eta / (5 * 10 ^ 15 * (1252 / 1000)\<^sup>2 * pi * (127 / 10000))\<rparr>) lg None"
  by (auto simp: after_try_def assert_closed_def calc_min_fiss_def default_eta_fields
      find_ind_default list_index_def py_div_def)

text \<open>
  C4. The claim asks that the file with the single line \<^verbatim>\<open>ETA Max Weight,100.0\<close> set
  \<open>max_weight\<close> to 100 and leave every other field of the default-constructed object as
  it was. The parse sets \<open>max_weight\<close> and runs no other keyword case; but the statement
  at the end of \<^verbatim>\<open>read_constraints\<close> divides \<open>min_fiss\<close>, already normalized by the
  constructor, once more, so \<open>min_fiss\<close> does not keep its value.
\<close>

theorem max_weight_only_file_renormalizes:
  "init default_args = Inr default_eta \<and>
   read_constraints (single_file [''ETA Max Weight,100.0\<newline>'']) default_eta ''constraints.csv'' =
     Outcome
       (default_eta\<lparr>max_weight := 100, f_attr := Some (File True),
          min_fiss :=
            min_fiss default_eta / (5 * 10 ^ 15 * (1252 / 1000)\<^sup>2 * pi * (127 / 10000))\<rparr>)
       [] None \<and>
   min_fiss (state (read_constraints (single_file [''ETA Max Weight,100.0\<newline>''])
     default_eta ''constraints.csv'')) \<noteq> min_fiss default_eta"
  using divide_neq_self [OF min_fiss_default_pos default_denominator_gt_1]
  by (simp add: init_default read_constraints_def single_file_def max_weight_line
      parse_lines.simps(2) after_try_default [of "\<lambda>_. 100"])

lemma unknown_keyword_line:
  assumes "field_of (keyword line) s = None" and "keyword line \<noteq> ''/''"
  shows "process_line s line =
     Outcome s [WarningUserInput (strip (hd (split_comma line)))] None"
proof -
  from assms(1) have "keyword line \<notin> fst ` set (field_table s)"
    by (simp add: field_of_def map_of_eq_None_iff)
  with assms(2) show ?thesis
    by (simp add: field_table_def lower_keywords keyword_def process_line_def Let_def
        switch_case_def)
qed

text \<open>
  C5. The claim asks that a file whose only line has an unrecognized first token leave
  every field of the default-constructed object as it was. For every such line (a first
  token that is no keyword of the table and not \<^verbatim>\<open>/\<close>) the parse is non-fatal and logs
  exactly one warning, for that token, and no keyword case runs; but the statement at the
  end of \<^verbatim>\<open>read_constraints\<close> divides \<open>min_fiss\<close>, already normalized by the constructor,
  once more, so \<open>min_fiss\<close> does not keep its value.
\<close>

theorem unknown_keyword_file_renormalizes:
  assumes "field_of (keyword line) default_eta = None" and "keyword line \<noteq> ''/''"
  shows "init default_args = Inr default_eta \<and>
     read_constraints (single_file [line]) default_eta filename =
       Outcome
         (default_eta\<lparr>f_attr := Some (File True),
            min_fiss :=
              min_fiss default_eta / (5 * 10 ^ 15 * (1252 / 1000)\<^sup>2 * pi * (127 / 10000))\<rparr>)
         [WarningUserInput (strip (hd (split_comma line)))] None \<and>
     min_fiss default_eta / (5 * 10 ^ 15 * (1252 / 1000)\<^sup>2 * pi * (127 / 10000)) \<noteq>
       min_fiss default_eta"
proof -
  have "field_of (keyword line) (default_eta\<lparr>f_attr := Some (File False)\<rparr>) = None"
    using assms(1) by (simp add: field_of_f_attr_update)
  from unknown_keyword_line [OF this assms(2)]
  show ?thesis
    using divide_neq_self [OF min_fiss_default_pos default_denominator_gt_1]
    by (simp add: init_default read_constraints_def single_file_def parse_lines.simps(2)
        after_try_default [of "\<lambda>x. x"])
qed

lemma foo_unrecognized:
  "field_of (keyword ''Foo,1\<newline>'') default_eta = None" "keyword ''Foo,1\<newline>'' \<noteq> ''/''"
  by (simp_all add: example_keywords field_of_def field_table_def lower_keywords)

theorem unknown_keyword_file_renormalizes_witness:
  "field_of (keyword ''Foo,1\<newline>'') default_eta = None \<and>
   keyword ''Foo,1\<newline>'' \<noteq> ''/'' \<and>
   init default_args = Inr default_eta \<and>
   read_constraints (single_file [''Foo,1\<newline>'']) default_eta ''constraints.csv'' =
     Outcome
       (default_eta\<lparr>f_attr := Some (File True),
          min_fiss :=
            min_fiss default_eta / (5 * 10 ^ 15 * (1252 / 1000)\<^sup>2 * pi * (127 / 10000))\<rparr>)
       [WarningUserInput ''Foo''] None \<and>
   min_fiss (state (read_constraints (single_file [''Foo,1\<newline>'']) default_eta
     ''constraints.csv'')) \<noteq> min_fiss default_eta"
  using unknown_keyword_file_renormalizes [OF foo_unrecognized, of "''constraints.csv''"]
    foo_unrecognized
  by (simp add: strip_simps)

subsection \<open>A file that cannot be opened\<close>




subsection \<open>The equal-length invariants\<close>








lemma list_example_keywords:
  "keyword ''ETA Max Weight,100.0\<newline>'' = ''eta max weight''"
  "keyword ''NAS Activation Foils,Zr\<newline>'' = ''nas activation foils''"
  "keyword ''NAS Activation Foils,Al,Ta\<newline>'' = ''nas activation foils''"
  "keyword ''NAS Radius,2.0\<newline>'' = ''nas radius''"
  "keyword ''Source Strength,2.0\<newline>'' = ''source strength''"
  "keyword ''Source Strength,4.0\<newline>'' = ''source strength''"
  "keyword ''Minimum Fissions,1.0\<newline>'' = ''minimum fissions''"
  "keyword ''Minimum Fissions,2.0\<newline>'' = ''minimum fissions''"
  by (simp_all add: keyword_def strip_def is_space_def lower_def lower_char_simps)

lemma example_floats:
  "py_float ''1.0'' = Some 1"
  "py_float ''2.0'' = Some 2"
  "py_float ''4.0'' = Some 4"
  by (simp_all add: py_float_def split_sign_def mantissa_def is_exp_char_def py_nat_def
      digit_of_def Let_def)

lemma example_lines:
  "process_line s ''NAS Activation Foils,Zr\<newline>'' = Outcome (s\<lparr>nas_mat_f := [''Zr'']\<rparr>) [] None"
  "process_line s ''NAS Activation Foils,Al,Ta\<newline>'' =
     Outcome (s\<lparr>nas_mat_f := [''Al'', ''Ta'']\<rparr>) [] None"
  "process_line s ''NAS Radius,2.0\<newline>'' = Outcome (s\<lparr>r_nas := 2\<rparr>) [] None"
  "process_line s ''Source Strength,2.0\<newline>'' = Outcome (s\<lparr>src := 2\<rparr>) [] None"
  "process_line s ''Source Strength,4.0\<newline>'' = Outcome (s\<lparr>src := 4\<rparr>) [] None"
  "process_line s ''Minimum Fissions,1.0\<newline>'' = Outcome (s\<lparr>min_fiss := 1\<rparr>) [] None"
  "process_line s ''Minimum Fissions,2.0\<newline>'' = Outcome (s\<lparr>min_fiss := 2\<rparr>) [] None"
  by (simp_all add: process_line_at list_example_keywords assign_float_def assign_strs_def
      float_item_def item_def list_index_def strip_def is_space_def example_floats)




subsection \<open>The derived \<open>min_fiss\<close> after a parse\<close>

lemma source_strength_files:
  "read_constraints (single_file [''Source Strength,2.0\<newline>'']) default_eta filename =
     Outcome
       (default_eta\<lparr>src := 2, f_attr := Some (File True),
          min_fiss := min_fiss default_eta / (2 * (1252 / 1000)\<^sup>2 * pi * (127 / 10000))\<rparr>)
       [] None"
  "parse_lines (default_eta\<lparr>f_attr := Some (File False)\<rparr>) [''Source Strength,2.0\<newline>''] =
     Outcome (default_eta\<lparr>f_attr := Some (File False), src := 2\<rparr>) [] None"
  "parse_lines (default_eta\<lparr>f_attr := Some (File False)\<rparr>) [''Source Strength,4.0\<newline>''] =
     Outcome (default_eta\<lparr>f_attr := Some (File False), src := 4\<rparr>) [] None"
  by (simp_all add: read_constraints_def single_file_def example_lines parse_lines.simps(2)
      after_try_def assert_closed_def calc_min_fiss_def default_eta_fields find_ind_default
      list_index_def py_div_def)

lemma divide_twice_commute:
  fixes x a b :: real
  shows "x / a / b = x / b / a"
  by (simp add: mult.commute)

text \<open>
  C2. The claim asks that \<open>min_fiss\<close> after a parse be the absolute minimum-fission value
  divided by \<open>src * r_toad\<^sup>2 * pi * t\<close>. On the default-constructed object, whose
  absolute value is the argument \<open>5e8\<close>, the file with the single line
  \<^verbatim>\<open>Source Strength,2.0\<close> is parsed without an exception; the statement at the end of
  \<^verbatim>\<open>read_constraints\<close> divides the \<open>min_fiss\<close> that the constructor has already
  normalized, so the result is \<open>5e8\<close> divided twice, and not \<open>5e8\<close> divided by the
  post-parse \<open>src * r_toad\<^sup>2 * pi * t\<close>.
\<close>

theorem read_constraints_divides_normalized_min_fiss:
  "init default_args = Inr default_eta \<and>
   arg_min_fiss default_args = 5 * 10 ^ 8 \<and>
   raised (read_constraints (single_file [''Source Strength,2.0\<newline>'']) default_eta
     ''constraints.csv'') = None \<and>
   min_fiss (state (read_constraints (single_file [''Source Strength,2.0\<newline>'']) default_eta
     ''constraints.csv'')) =
     5 * 10 ^ 8 / (5 * 10 ^ 15 * (1252 / 1000)\<^sup>2 * pi * (127 / 10000)) /
       (2 * (1252 / 1000)\<^sup>2 * pi * (127 / 10000)) \<and>
   min_fiss (state (read_constraints (single_file [''Source Strength,2.0\<newline>'']) default_eta
     ''constraints.csv'')) \<noteq>
     5 * 10 ^ 8 / (2 * (1252 / 1000)\<^sup>2 * pi * (127 / 10000))"
proof -
  let ?D = "5 * 10 ^ 15 * (1252 / 1000)\<^sup>2 * pi * (127 / 10000) :: real"
  let ?D2 = "2 * (1252 / 1000)\<^sup>2 * pi * (127 / 10000) :: real"
  have pos: "0 < 5 * 10 ^ 8 / ?D2"
    by simp
  have once: "5 * 10 ^ 8 / ?D2 / ?D \<noteq> 5 * 10 ^ 8 / ?D2"
    using pos default_denominator_gt_1 by (rule divide_neq_self)
  have comm: "5 * 10 ^ 8 / ?D / ?D2 = 5 * 10 ^ 8 / ?D2 / ?D"
    by (rule divide_twice_commute)
  have ne: "5 * 10 ^ 8 / ?D / ?D2 \<noteq> 5 * 10 ^ 8 / ?D2"
    unfolding comm by (rule once)
  have a: "arg_min_fiss default_args = 5 * 10 ^ 8"
    by (simp add: default_args_def)
  have v: "min_fiss (state (read_constraints (single_file [''Source Strength,2.0\<newline>''])
      default_eta ''constraints.csv'')) = 5 * 10 ^ 8 / ?D / ?D2"
    by (simp add: source_strength_files default_eta_fields)
  have r: "raised (read_constraints (single_file [''Source Strength,2.0\<newline>'']) default_eta
     ''constraints.csv'') = None"
    by (simp add: source_strength_files)
  from init_default a r v ne show ?thesis
    by (simp only: simp_thms)
qed

subsection \<open>Last write wins\<close>

text \<open>
  C9, as amended. Let a parse of the file \<open>pre @ line # post\<close> return without an
  exception, let \<open>line\<close> carry a recognized keyword \<open>k\<close> other than
  \<^verbatim>\<open>Minimum Fissions\<close>, and let no line of \<open>post\<close> carry \<open>k\<close>. Then the attribute named by
  \<open>k\<close> holds, after the call, the value assigned by \<open>line\<close>. For a list keyword that
  value is made of every token after the keyword, so the length of the list is the number
  of tokens of \<open>line\<close> minus one.
\<close>

theorem last_write_wins:
  assumes opened: "fs filename = Inr (pre @ line # post)"
    and ok: "raised (read_constraints fs self filename) = None"
    and k: "keyword line = k"
    and nm: "k \<noteq> ''minimum fissions''"
    and old: "field_of k self = Some old"
    and post: "\<forall>l\<in>set post. keyword l \<noteq> k"
  shows "field_of k (state (read_constraints fs self filename)) =
       assigned old (split_comma line) \<and>
     (\<forall>vs. assigned old (split_comma line) = Some (StrsV vs) \<longrightarrow>
        vs = map strip (tl (split_comma line)) \<and>
        length vs = length (split_comma line) - 1) \<and>
     (\<forall>vs. assigned old (split_comma line) = Some (FloatsV vs) \<longrightarrow>
        append_floats [] (tl (split_comma line)) = (vs, None) \<and>
        length vs = length (split_comma line) - 1)"
proof -
  let ?self0 = "self\<lparr>f_attr := Some (File False)\<rparr>"
  let ?s = "state (parse_lines ?self0 (pre @ line # post))"
  from read_constraints_Inr [where fs = fs and filename = filename, OF opened ok]
  have parsed: "raised (parse_lines ?self0 (pre @ line # post)) = None"
    and calc: "calc_min_fiss (?s\<lparr>f_attr := Some (File True)\<rparr>) =
      Inr (state (read_constraints fs self filename))"
    by simp_all
  from calc obtain v where
    "state (read_constraints fs self filename) = ?s\<lparr>f_attr := Some (File True), min_fiss := v\<rparr>"
    by (rule calc_min_fiss_Inr) simp
  then have "field_of k (state (read_constraints fs self filename)) = field_of k ?s"
    by (simp add: field_of_min_fiss_update [OF nm] field_of_f_attr_update)
  also have "\<dots> = assigned old (split_comma line)"
    using parsed k _ post by (rule parse_lines_last_write) (simp add: field_of_f_attr_update old)
  finally have wins: "field_of k (state (read_constraints fs self filename)) =
      assigned old (split_comma line)" .
  have strs: "vs = map strip (tl (split_comma line)) \<and> length vs = length (split_comma line) - 1"
    if "assigned old (split_comma line) = Some (StrsV vs)" for vs
    using that by (auto simp: assigned_def split: fieldval.splits sum.splits prod.splits option.splits)
  have floats: "append_floats [] (tl (split_comma line)) = (vs, None) \<and>
      length vs = length (split_comma line) - 1"
    if "assigned old (split_comma line) = Some (FloatsV vs)" for vs
    using that
    by (auto simp: assigned_def split: fieldval.splits sum.splits prod.splits option.splits
        dest: append_floats_length)
  from wins strs floats show ?thesis
    by blast
qed

lemma nas_foils_file:
  "read_constraints
     (single_file [''NAS Activation Foils,Zr\<newline>'', ''NAS Activation Foils,Al,Ta\<newline>'',
        ''NAS Radius,2.0\<newline>'']) default_eta filename =
     Outcome
       (default_eta\<lparr>nas_mat_f := [''Al'', ''Ta''], r_nas := 2, f_attr := Some (File True),
          min_fiss :=
            min_fiss default_eta / (5 * 10 ^ 15 * (1252 / 1000)\<^sup>2 * pi * (127 / 10000))\<rparr>)
       [] None"
  by (simp add: read_constraints_def single_file_def example_lines parse_lines.simps(2)
      after_try_def assert_closed_def calc_min_fiss_def default_eta_fields find_ind_default
      list_index_def py_div_def)

lemma nas_foils_tokens:
  "split_comma ''NAS Activation Foils,Al,Ta\<newline>'' = [''NAS Activation Foils'', ''Al'', ''Ta\<newline>'']"
  by simp

theorem last_write_wins_witness:
  "single_file [''NAS Activation Foils,Zr\<newline>'', ''NAS Activation Foils,Al,Ta\<newline>'',
      ''NAS Radius,2.0\<newline>''] ''constraints.csv'' =
     Inr ([''NAS Activation Foils,Zr\<newline>''] @ ''NAS Activation Foils,Al,Ta\<newline>'' #
       [''NAS Radius,2.0\<newline>'']) \<and>
   raised (read_constraints
     (single_file [''NAS Activation Foils,Zr\<newline>'', ''NAS Activation Foils,Al,Ta\<newline>'',
        ''NAS Radius,2.0\<newline>'']) default_eta ''constraints.csv'') = None \<and>
   keyword ''NAS Activation Foils,Al,Ta\<newline>'' = ''nas activation foils'' \<and>
   keyword ''NAS Radius,2.0\<newline>'' \<noteq> ''nas activation foils'' \<and>
   field_of ''nas activation foils'' default_eta = Some (StrsV (nas_mat_f default_eta)) \<and>
   field_of ''nas activation foils''
     (state (read_constraints
       (single_file [''NAS Activation Foils,Zr\<newline>'', ''NAS Activation Foils,Al,Ta\<newline>'',
          ''NAS Radius,2.0\<newline>'']) default_eta ''constraints.csv'')) =
     Some (StrsV [''Al'', ''Ta'']) \<and>
   length [''Al'', ''Ta''] = length (split_comma ''NAS Activation Foils,Al,Ta\<newline>'') - 1"
proof -
  let ?L1 = "''NAS Activation Foils,Zr\<newline>''" and ?L2 = "''NAS Activation Foils,Al,Ta\<newline>''"
    and ?L3 = "''NAS Radius,2.0\<newline>''"
  let ?fs = "single_file [?L1, ?L2, ?L3]"
  let ?fn = "''constraints.csv''"
  have f: "?fs ?fn = Inr ([?L1] @ ?L2 # [?L3])"
    by (simp add: single_file_def)
  have ok: "raised (read_constraints ?fs default_eta ?fn) = None"
    by (simp add: nas_foils_file)
  have k: "keyword ?L2 = ''nas activation foils''"
    by (simp add: list_example_keywords)
  have nm: "''nas activation foils'' \<noteq> ''minimum fissions''"
    by simp
  have old: "field_of ''nas activation foils'' default_eta = Some (StrsV (nas_mat_f default_eta))"
    by (simp add: field_of_simps)
  have k3: "keyword ?L3 \<noteq> ''nas activation foils''"
    by (simp add: list_example_keywords)
  then have post: "\<forall>l\<in>set [?L3]. keyword l \<noteq> ''nas activation foils''"
    by simp
  have a: "assigned (StrsV (nas_mat_f default_eta)) (split_comma ?L2) = Some (StrsV [''Al'', ''Ta''])"
    by (simp add: assigned_def nas_foils_tokens strip_def is_space_def)
  note T = last_write_wins [where fs = ?fs and filename = ?fn, OF f ok k nm old post]
  from T a have "field_of ''nas activation foils'' (state (read_constraints ?fs default_eta ?fn)) =
      Some (StrsV [''Al'', ''Ta'']) \<and>
      length [''Al'', ''Ta''] = length (split_comma ?L2) - 1"
    by simp
  with f ok k k3 old show ?thesis
    by blast
qed

text \<open>
  C9 as stated fails for the keyword \<^verbatim>\<open>Minimum Fissions\<close>: after a parse of two such
  lines, \<open>min_fiss\<close> is not the value 2.0 of the last one, since the recomputation at the
  end of the parse divides it.
\<close>

theorem minimum_fissions_not_last_written:
  "raised (read_constraints
     (single_file [''Minimum Fissions,1.0\<newline>'', ''Minimum Fissions,2.0\<newline>''])
     default_eta ''constraints.csv'') = None \<and>
   keyword ''Minimum Fissions,2.0\<newline>'' = ''minimum fissions'' \<and>
   float_item (split_comma ''Minimum Fissions,2.0\<newline>'') 1 = Inr 2 \<and>
   min_fiss (state (read_constraints
     (single_file [''Minimum Fissions,1.0\<newline>'', ''Minimum Fissions,2.0\<newline>''])
     default_eta ''constraints.csv'')) \<noteq> 2"
  using divide_neq_self [OF _ default_denominator_gt_1, of 2]
  by (simp add: read_constraints_def single_file_def example_lines parse_lines.simps(2)
      after_try_def assert_closed_def calc_min_fiss_def default_eta_fields find_ind_default
      list_index_def py_div_def list_example_keywords float_item_def item_def strip_def is_space_def
      example_floats)

end
